theory Spec2Isabelle
  imports Complex_Main "HOL-Library.Sublist" "HOL-Library.Char_ord" "HOL-Library.List_Lexorder"
begin

section \<open>Python values used by the workflow code\<close>

text \<open>
  The stream pack builder is Python. Its \<open>int\<close> is \<^typ>\<open>int\<close>, its \<open>str\<close> is
  \<^typ>\<open>string\<close> (a code point beyond ASCII is written as its UTF-8 bytes), and its finite
  \<open>float\<close> values are the rationals they denote (\<^typ>\<open>rat\<close>): comparisons are then exact,
  and arithmetic is the exact arithmetic that the floating-point operations round. NaN and
  the infinities have no image in the model.

  An exception is a value of type \<open>error\<close>; a function that may raise returns
  \<open>error + 'a\<close>, with \<open>Inl\<close> for the exception.
\<close>

datatype error =
    ValueError
  | FileNotFoundError
  | KeyError string
  | TypeError
  | AttributeError
  | IndexError
  | CollaboratorError string

subsection \<open>Text\<close>

text \<open>\<open>str(n)\<close> for an integer: decimal digits, with a leading minus sign when negative.\<close>

definition digit_char :: "nat \<Rightarrow> char" where
  "digit_char d = ''0123456789'' ! d"

fun str_nat :: "nat \<Rightarrow> string" where
  "str_nat n = (if n < 10 then [digit_char n] else str_nat (n div 10) @ [digit_char (n mod 10)])"

declare str_nat.simps [simp del]

definition str_int :: "int \<Rightarrow> string" where
  "str_int i = (if i < 0 then CHR ''-'' # str_nat (nat (- i)) else str_nat (nat i))"

text \<open>\<open>needle in hay\<close> on strings: \<open>needle\<close> occurs as a contiguous run of \<open>hay\<close>.\<close>

fun str_in :: "string \<Rightarrow> string \<Rightarrow> bool" where
  "str_in needle [] = (needle = [])"
| "str_in needle (c # cs) = (prefix needle (c # cs) \<or> str_in needle cs)"

text \<open>\<open>s.lower()\<close>: the ASCII capitals are mapped to small letters. Bytes beyond ASCII
  are kept: file names and exception texts are taken to hold no cased letter outside
  ASCII.\<close>

definition lower_char :: "char \<Rightarrow> char" where
  "lower_char c =
     (case map_of (zip ''ABCDEFGHIJKLMNOPQRSTUVWXYZ'' ''abcdefghijklmnopqrstuvwxyz'') c of
        Some l \<Rightarrow> l
      | None \<Rightarrow> c)"

definition lower :: "string \<Rightarrow> string" where
  "lower s = map lower_char s"

text \<open>A character that is neither a capital B or P nor, once lowered, a small t: the
  decision words BLOCKED, PASS and threshold cannot occur in a text of such characters.\<close>

definition plain_char :: "char \<Rightarrow> bool" where
  "plain_char c = (c \<noteq> CHR ''B'' \<and> c \<noteq> CHR ''P'' \<and> lower_char c \<noteq> CHR ''t'')"

text \<open>The UTF-8 bytes of the signs \<open>\<ge>\<close> (U+2265) and \<open>\<le>\<close> (U+2264) of the messages.\<close>

definition ge_sign :: string where
  "ge_sign = [CHR 0xE2, CHR 0x89, CHR 0xA5]"

definition le_sign :: string where
  "le_sign = [CHR 0xE2, CHR 0x89, CHR 0xA4]"

text \<open>
  How Python prints a float depends on the binary64 value, which the model does not
  have. The two renderings the code uses are therefore parameters of the functions that
  build messages: \<open>fixed1 x\<close> is \<open>f"{x:.1f}"\<close> and \<open>float_str x\<close> is \<open>f"{x}"\<close>.
\<close>

record float_text =
  fixed1 :: "rat \<Rightarrow> string"
  float_str :: "rat \<Rightarrow> string"

text \<open>
  One instance, for running the functions on examples. \<open>decimal1\<close> is the
  correctly rounded one-digit rendering (ties to the even digit) that \<open>.1f\<close>
  produces; for a value with a single decimal digit, such as 8.5 or 7.0, it is also what
  \<open>str\<close> prints.
\<close>

definition decimal1 :: "rat \<Rightarrow> string" where
  "decimal1 x =
     (let q = \<bar>x\<bar> * 10;
          f = \<lfloor>q\<rfloor>;
          d = q - of_int f;
          n = nat (if d < 1 / 2 then f else if 1 / 2 < d then f + 1
                   else if even f then f else f + 1)
      in (if x < 0 then ''-'' else []) @ str_nat (n div 10) @ ''.'' @ [digit_char (n mod 10)])"

definition short_text :: float_text where
  "short_text = \<lparr>fixed1 = decimal1, float_str = decimal1\<rparr>"

section \<open>The rubric records (multi\_agent/rubric.py)\<close>

record EvaluationScore =
  dimension :: string
  score :: rat
  weight :: rat
  justification :: string
  issues :: "string list"

text \<open>A Python \<open>dict\<close> with string keys is an association list in insertion order.\<close>

type_synonym str_dict = "(string \<times> string) list"

record PackEvaluation =
  eval_pack_name :: string
  overall_score :: rat
  dimension_scores :: "EvaluationScore list"
  critical_issues :: "string list"
  selected_images :: str_dict
  deltas :: "string list"
  automated_checks_passed :: bool

text \<open>The property \<open>passes_threshold\<close>: the bound is the literal 8.5 of the source.\<close>

definition passes_threshold :: "PackEvaluation \<Rightarrow> bool" where
  "passes_threshold ev = (overall_score ev \<ge> 17 / 2 \<and> critical_issues ev = [])"

subsection \<open>calculate\_overall\_score\<close>

text \<open>Python's \<open>sum\<close> over a generator adds from the left, starting at 0.\<close>

definition py_sum :: "rat list \<Rightarrow> rat" where
  "py_sum xs = foldl (+) 0 xs"

definition calculate_overall_score :: "EvaluationScore list \<Rightarrow> rat" where
  "calculate_overall_score ds =
     (if ds = [] then 0
      else let total_weight = py_sum (map weight ds) in
        if total_weight = 0 then 0
        else let weighted_sum = py_sum (map (\<lambda>s. score s * weight s) ds) in
          weighted_sum / total_weight)"

subsection \<open>The automated technical checks\<close>

text \<open>
  The checks read the pack directory. What they read is the input of the model: for each
  of the three subdirectories, whether it exists and the files its glob yields, and for
  each file its name, what \<open>Image.open\<close> gives (the pixel size, or the text of the
  exception raised while opening or measuring it) and the size in bytes from \<open>stat\<close>.
\<close>

record image_file =
  file_name :: string
  image_size :: "string + (nat \<times> nat)"
  st_size :: nat

record zip_file =
  zip_name :: string
  zip_size :: nat

record pack_dir =
  pack_path :: string
  final_pngs :: "image_file list option"
  listing_jpgs :: "image_file list option"
  zip_files :: "zip_file list option"

definition size_mb :: "nat \<Rightarrow> rat" where
  "size_mb bytes = of_nat bytes / (1024 * 1024)"

definition overlay_issues_of :: "image_file \<Rightarrow> string list" where
  "overlay_issues_of f =
     (case image_size f of
        Inl e \<Rightarrow> [''Failed to read '' @ file_name f @ '': '' @ e]
      | Inr (width, height) \<Rightarrow>
          if (width, height) \<noteq> (1920, 1080) then
            [''Overlay wrong resolution: '' @ file_name f @ '' is '' @ str_nat width @ ''x''
               @ str_nat height @ '', expected 1920x1080'']
          else [])"

definition validate_technical_overlays :: "pack_dir \<Rightarrow> string list \<times> bool" where
  "validate_technical_overlays pd =
     (case final_pngs pd of
        None \<Rightarrow> ([''Final directory not found: '' @ pack_path pd @ ''/03_final''], False)
      | Some overlay_files \<Rightarrow>
          if overlay_files = [] then
            ([''No overlay PNG files found in '' @ pack_path pd @ ''/03_final''], False)
          else let issues = concat (map overlay_issues_of overlay_files)
               in (issues, length issues = 0))"

text \<open>
  One pass of the loop of \<open>validate_etsy_listings\<close> over the photo at position \<open>idx\<close>:
  the errors and the warnings it appends. An exception anywhere in the \<open>try\<close> block
  is raised before the first append, and the handler appends one error.
\<close>

definition too_small_error :: "image_file \<Rightarrow> nat \<Rightarrow> nat \<Rightarrow> string" where
  "too_small_error f width height =
     file_name f @ '': Too small '' @ str_nat width @ ''x'' @ str_nat height
       @ '', Etsy requires min 2000px on smallest side''"

definition first_image_error :: "image_file \<Rightarrow> nat \<Rightarrow> nat \<Rightarrow> string" where
  "first_image_error f width height =
     file_name f @ '': First listing image should be landscape or square (current: ''
       @ str_nat width @ ''x'' @ str_nat height @ '')''"

definition size_warning :: "float_text \<Rightarrow> image_file \<Rightarrow> string" where
  "size_warning ft f =
     file_name f @ '': Size '' @ fixed1 ft (size_mb (st_size f)) @ ''MB > 1MB (Etsy recommends ''
       @ le_sign @ ''1MB for faster loading)''"

definition size_error :: "float_text \<Rightarrow> image_file \<Rightarrow> string" where
  "size_error ft f =
     file_name f @ '': Size '' @ fixed1 ft (size_mb (st_size f)) @ ''MB exceeds Etsy's 2MB limit''"

definition listing_photo_pass ::
    "float_text \<Rightarrow> nat \<Rightarrow> image_file \<Rightarrow> string list \<times> string list" where
  "listing_photo_pass ft idx f =
     (case image_size f of
        Inl e \<Rightarrow> ([''Failed to validate '' @ file_name f @ '': '' @ e], [])
      | Inr (width, height) \<Rightarrow>
          ((if width < 2000 \<or> height < 2000 then [too_small_error f width height] else [])
           @ (if idx = 0 \<and> width < height then [first_image_error f width height] else [])
           @ (if size_mb (st_size f) > 2 then [size_error ft f] else []),
           (if size_mb (st_size f) > 1 then [size_warning ft f] else [])))"

text \<open>\<open>sorted(listing_dir.glob("*.jpg"))\<close> orders the files of one directory by name.\<close>

definition validate_etsy_listings ::
    "float_text \<Rightarrow> pack_dir \<Rightarrow> string list \<times> string list \<times> bool" where
  "validate_etsy_listings ft pd =
     (case listing_jpgs pd of
        None \<Rightarrow> ([], [], True)
      | Some jpgs \<Rightarrow>
          let listing_files = sort_key file_name jpgs in
          if listing_files = [] then ([], [], True)
          else let passes = map (\<lambda>(idx, f). listing_photo_pass ft idx f) (enumerate 0 listing_files);
                   errors = concat (map fst passes);
                   warnings = concat (map snd passes)
               in (errors, warnings, length errors = 0))"

definition zip_issues_of :: "float_text \<Rightarrow> zip_file \<Rightarrow> string list" where
  "zip_issues_of ft z =
     (if size_mb (zip_size z) > 20 then
        [zip_name z @ '': Size '' @ fixed1 ft (size_mb (zip_size z)) @ ''MB exceeds Etsy's 20MB limit'']
      else [])"

definition validate_etsy_downloads :: "float_text \<Rightarrow> pack_dir \<Rightarrow> string list \<times> bool" where
  "validate_etsy_downloads ft pd =
     (case zip_files pd of
        None \<Rightarrow> ([], True)
      | Some zs \<Rightarrow>
          if zs = [] then ([], True)
          else let issues =
                     (if length zs > 5 then
                        [''Too many download files: '' @ str_nat (length zs)
                           @ '' ZIPs found, Etsy allows max 5 files'']
                      else [])
                     @ concat (map (zip_issues_of ft) zs)
               in (issues, length issues = 0))"

definition check_critical_issues :: "float_text \<Rightarrow> pack_dir \<Rightarrow> string list" where
  "check_critical_issues ft pd =
     (case final_pngs pd of
        None \<Rightarrow> [''Missing 03_final/ directory'']
      | Some overlay_files \<Rightarrow>
          (if overlay_files = [] then [''No overlay PNG files found in 03_final/''] else [])
          @ map (\<lambda>issue. ''CRITICAL: '' @ issue)
              (filter (\<lambda>issue. str_in ''wrong resolution'' (lower issue))
                 (fst (validate_technical_overlays pd)))
          @ (case zip_files pd of
               None \<Rightarrow> []
             | Some zs \<Rightarrow>
                 map (\<lambda>issue. ''CRITICAL: '' @ issue)
                   (filter (\<lambda>issue. str_in ''exceeds'' (lower issue) \<and> str_in ''20mb'' (lower issue))
                      (fst (validate_etsy_downloads ft pd)))))"

definition compute_automated_score :: "float_text \<Rightarrow> pack_dir \<Rightarrow> rat \<times> string list" where
  "compute_automated_score ft pd =
     (let overlay_issues = fst (validate_technical_overlays pd);
          all_issues = overlay_issues;
          listing_errors = fst (validate_etsy_listings ft pd);
          all_issues = all_issues @ listing_errors;
          zip_issues = fst (validate_etsy_downloads ft pd);
          all_issues = all_issues @ zip_issues;
          score = max 0 (10 - of_nat (length all_issues) * (1 / 2))
      in (score, all_issues))"

section \<open>The workflow state (multi\_agent/state.py)\<close>

record RoundState =
  round_num :: int
  timestamp :: string
  prompts_used :: str_dict
  evaluation :: "PackEvaluation option"
  variants_generated :: int
  cost_usd :: rat

record WorkflowState =
  pack_name :: string
  started_at :: string
  max_rounds :: int
  quality_threshold :: rat
  rounds :: "RoundState list"
  completed :: bool
  completion_reason :: string

definition current_round :: "WorkflowState \<Rightarrow> int" where
  "current_round s = int (length (rounds s)) + 1"

definition latest_evaluation :: "WorkflowState \<Rightarrow> PackEvaluation option" where
  "latest_evaluation s = (if rounds s = [] then None else evaluation (last (rounds s)))"

definition latest_deltas :: "WorkflowState \<Rightarrow> string list" where
  "latest_deltas s = (case latest_evaluation s of None \<Rightarrow> [] | Some ev \<Rightarrow> deltas ev)"

definition latest_score :: "WorkflowState \<Rightarrow> rat option" where
  "latest_score s = map_option overall_score (latest_evaluation s)"

definition score_trend :: "WorkflowState \<Rightarrow> rat list" where
  "score_trend s = map overall_score (List.map_filter evaluation (rounds s))"

text \<open>
  \<open>should_continue\<close> returns the pair (continue?, reason). A \<open>PackEvaluation\<close> object is
  always truthy, so \<open>not self.latest_evaluation\<close> is the test for \<open>None\<close>. In the branches
  that print \<open>self.latest_score\<close> the latest evaluation exists, and the score is its
  \<open>overall_score\<close>.
\<close>

definition should_continue :: "float_text \<Rightarrow> WorkflowState \<Rightarrow> bool \<times> string" where
  "should_continue ft s =
     (case latest_evaluation s of
        None \<Rightarrow> (True, ''No evaluation yet'')
      | Some ev \<Rightarrow>
          if critical_issues ev \<noteq> [] then
            (False, ''BLOCKED by '' @ str_nat (length (critical_issues ev)) @ '' critical issue(s)'')
          else if passes_threshold ev then
            (False, ''PASS - Score '' @ fixed1 ft (overall_score ev) @ '' '' @ ge_sign
                      @ '' threshold '' @ float_str ft (quality_threshold s))
          else if current_round s > max_rounds s then
            (False, ''Max rounds ('' @ str_int (max_rounds s) @ '') reached'')
          else
            (True, ''Score '' @ fixed1 ft (overall_score ev) @ '' < threshold ''
                     @ float_str ft (quality_threshold s)))"

definition add_round :: "WorkflowState \<Rightarrow> RoundState \<Rightarrow> WorkflowState" where
  "add_round s r = s\<lparr>rounds := rounds s @ [r]\<rparr>"

definition finalize :: "WorkflowState \<Rightarrow> string \<Rightarrow> WorkflowState" where
  "finalize s reason = s\<lparr>completed := True, completion_reason := reason\<rparr>"

text \<open>\<open>create_new\<close>; the clock reading \<open>now\<close> is an input.\<close>

definition create_new :: "string \<Rightarrow> int \<Rightarrow> rat \<Rightarrow> string \<Rightarrow> WorkflowState" where
  "create_new name max_r threshold now =
     \<lparr>pack_name = name, started_at = now, max_rounds = max_r, quality_threshold = threshold,
      rounds = [], completed = False, completion_reason = ''''\<rparr>"

section \<open>Persistence of the workflow state (multi\_agent/state.py)\<close>

text \<open>
  \<open>save\<close> hands a tree of dicts, lists, strings, numbers, booleans and \<open>None\<close> to
  \<open>json.dump\<close>, and \<open>load\<close> receives such a tree from \<open>json.load\<close>. The tree is
  the type \<open>json\<close>; an object keeps its keys in insertion order. The state file holds one
  tree: writing a tree and reading it back through the json library yields the same tree
  (strings, integers and finite floats are printed so that they read back unchanged), so
  the content of the file is modelled by the tree itself.
\<close>

datatype json =
    JNull
  | JBool bool
  | JInt int
  | JFloat rat
  | JStr string
  | JList "json list"
  | JObj "(string \<times> json) list"

text \<open>Exceptions are sequenced with \<open>then_do\<close>: the first one raised is the result.\<close>

definition then_do :: "error + 'a \<Rightarrow> ('a \<Rightarrow> error + 'b) \<Rightarrow> error + 'b" where
  "then_do m f = (case m of Inl e \<Rightarrow> Inl e | Inr x \<Rightarrow> f x)"

fun map_err :: "('a \<Rightarrow> error + 'b) \<Rightarrow> 'a list \<Rightarrow> error + 'b list" where
  "map_err f [] = Inr []"
| "map_err f (x # xs) = then_do (f x) (\<lambda>y. then_do (map_err f xs) (\<lambda>ys. Inr (y # ys)))"

subsection \<open>Serialisation: to\_dict and save\<close>

definition json_str_list :: "string list \<Rightarrow> json" where
  "json_str_list xs = JList (map JStr xs)"

definition json_str_dict :: "str_dict \<Rightarrow> json" where
  "json_str_dict d = JObj (map (\<lambda>(k, v). (k, JStr v)) d)"

definition score_to_dict :: "EvaluationScore \<Rightarrow> json" where
  "score_to_dict sc =
     JObj [(''dimension'', JStr (dimension sc)),
           (''score'', JFloat (score sc)),
           (''weight'', JFloat (weight sc)),
           (''justification'', JStr (justification sc)),
           (''issues'', json_str_list (issues sc))]"

definition evaluation_to_dict :: "PackEvaluation \<Rightarrow> json" where
  "evaluation_to_dict ev =
     JObj [(''pack_name'', JStr (eval_pack_name ev)),
           (''overall_score'', JFloat (overall_score ev)),
           (''dimension_scores'', JList (map score_to_dict (dimension_scores ev))),
           (''critical_issues'', json_str_list (critical_issues ev)),
           (''selected_images'', json_str_dict (selected_images ev)),
           (''deltas'', json_str_list (deltas ev)),
           (''automated_checks_passed'', JBool (automated_checks_passed ev))]"

text \<open>
  \<open>RoundState.to_dict\<close>: \<open>asdict\<close> lists the fields in declaration order, and the entry
  \<open>evaluation\<close> is then replaced in place when an evaluation is present.
\<close>

definition to_dict :: "RoundState \<Rightarrow> json" where
  "to_dict r =
     JObj [(''round_num'', JInt (round_num r)),
           (''timestamp'', JStr (timestamp r)),
           (''prompts_used'', json_str_dict (prompts_used r)),
           (''evaluation'', (case evaluation r of None \<Rightarrow> JNull | Some ev \<Rightarrow> evaluation_to_dict ev)),
           (''variants_generated'', JInt (variants_generated r)),
           (''cost_usd'', JFloat (cost_usd r))]"

definition state_to_json :: "WorkflowState \<Rightarrow> json" where
  "state_to_json s =
     JObj [(''pack_name'', JStr (pack_name s)),
           (''started_at'', JStr (started_at s)),
           (''max_rounds'', JInt (max_rounds s)),
           (''quality_threshold'', JFloat (quality_threshold s)),
           (''rounds'', JList (map to_dict (rounds s))),
           (''completed'', JBool (completed s)),
           (''completion_reason'', JStr (completion_reason s))]"

text \<open>
  The state file \<open>qa/workflow_state.json\<close> of a pack: absent, or holding a tree. \<open>save\<close>
  creates the \<open>qa\<close> directory when needed and overwrites the file; the pack directory
  exists whenever the driver saves.
\<close>

type_synonym state_file = "json option"

definition save :: "WorkflowState \<Rightarrow> state_file" where
  "save s = Some (state_to_json s)"

subsection \<open>Deserialisation: load\<close>

text \<open>
  Python does not check the types of what it reads: a document whose \<open>pack_name\<close> is a
  number loads into an ill-typed object. The records of the model are typed, so such a
  document has no image; the readers below report it as \<open>TypeError\<close>. A float field
  accepts a JSON integer, as Python does in every later use.
\<close>

definition subscript :: "json \<Rightarrow> string \<Rightarrow> error + json" where
  "subscript d k =
     (case d of
        JObj kvs \<Rightarrow> (case map_of kvs k of None \<Rightarrow> Inl (KeyError k) | Some v \<Rightarrow> Inr v)
      | _ \<Rightarrow> Inl TypeError)"

definition dict_get :: "json \<Rightarrow> string \<Rightarrow> json \<Rightarrow> error + json" where
  "dict_get d k dflt =
     (case d of
        JObj kvs \<Rightarrow> (case map_of kvs k of None \<Rightarrow> Inr dflt | Some v \<Rightarrow> Inr v)
      | _ \<Rightarrow> Inl AttributeError)"

fun truthy :: "json \<Rightarrow> bool" where
  "truthy JNull = False"
| "truthy (JBool b) = b"
| "truthy (JInt i) = (i \<noteq> 0)"
| "truthy (JFloat x) = (x \<noteq> 0)"
| "truthy (JStr s) = (s \<noteq> [])"
| "truthy (JList xs) = (xs \<noteq> [])"
| "truthy (JObj kvs) = (kvs \<noteq> [])"

fun as_str :: "json \<Rightarrow> error + string" where
  "as_str (JStr s) = Inr s"
| "as_str _ = Inl TypeError"

fun as_int :: "json \<Rightarrow> error + int" where
  "as_int (JInt i) = Inr i"
| "as_int _ = Inl TypeError"

fun as_float :: "json \<Rightarrow> error + rat" where
  "as_float (JFloat x) = Inr x"
| "as_float (JInt i) = Inr (of_int i)"
| "as_float _ = Inl TypeError"

fun as_bool :: "json \<Rightarrow> error + bool" where
  "as_bool (JBool b) = Inr b"
| "as_bool _ = Inl TypeError"

fun as_list :: "json \<Rightarrow> error + json list" where
  "as_list (JList xs) = Inr xs"
| "as_list _ = Inl TypeError"

definition as_str_list :: "json \<Rightarrow> error + string list" where
  "as_str_list j = then_do (as_list j) (map_err as_str)"

fun as_str_dict :: "json \<Rightarrow> error + str_dict" where
  "as_str_dict (JObj kvs) = map_err (\<lambda>(k, v). then_do (as_str v) (\<lambda>t. Inr (k, t))) kvs"
| "as_str_dict _ = Inl TypeError"

text \<open>
  \<open>EvaluationScore(**s)\<close>: the keys of \<open>s\<close> are the keyword arguments. An unknown key
  or a missing required field raises \<open>TypeError\<close>; \<open>issues\<close> defaults to the empty
  list.
\<close>

definition score_of_dict :: "json \<Rightarrow> error + EvaluationScore" where
  "score_of_dict j =
     (case j of
        JObj kvs \<Rightarrow>
          if \<not> list_all (\<lambda>k. k \<in> set [''dimension'', ''score'', ''weight'', ''justification'', ''issues''])
                 (map fst kvs)
             \<or> \<not> list_all (\<lambda>k. k \<in> set (map fst kvs))
                 [''dimension'', ''score'', ''weight'', ''justification'']
          then Inl TypeError
          else
            then_do (then_do (subscript j ''dimension'') as_str) (\<lambda>d.
            then_do (then_do (subscript j ''score'') as_float) (\<lambda>sc.
            then_do (then_do (subscript j ''weight'') as_float) (\<lambda>w.
            then_do (then_do (subscript j ''justification'') as_str) (\<lambda>ju.
            then_do (then_do (dict_get j ''issues'' (JList [])) as_str_list) (\<lambda>iss.
              Inr \<lparr>dimension = d, score = sc, weight = w, justification = ju, issues = iss\<rparr>)))))
      | _ \<Rightarrow> Inl TypeError)"

definition evaluation_of_dict :: "json \<Rightarrow> error + PackEvaluation" where
  "evaluation_of_dict eval_data =
     then_do (then_do (then_do (subscript eval_data ''dimension_scores'') as_list)
                (map_err score_of_dict)) (\<lambda>ds.
     then_do (then_do (subscript eval_data ''pack_name'') as_str) (\<lambda>pn.
     then_do (then_do (subscript eval_data ''overall_score'') as_float) (\<lambda>os.
     then_do (then_do (subscript eval_data ''critical_issues'') as_str_list) (\<lambda>ci.
     then_do (then_do (subscript eval_data ''selected_images'') as_str_dict) (\<lambda>si.
     then_do (then_do (subscript eval_data ''deltas'') as_str_list) (\<lambda>de.
     then_do (then_do (subscript eval_data ''automated_checks_passed'') as_bool) (\<lambda>ap.
       Inr \<lparr>eval_pack_name = pn, overall_score = os, dimension_scores = ds,
            critical_issues = ci, selected_images = si, deltas = de,
            automated_checks_passed = ap\<rparr>)))))))"

definition round_of_dict :: "json \<Rightarrow> error + RoundState" where
  "round_of_dict r_data =
     then_do (dict_get r_data ''evaluation'' JNull) (\<lambda>eval_data.
     then_do (if truthy eval_data then then_do (evaluation_of_dict eval_data) (\<lambda>ev. Inr (Some ev))
              else Inr None) (\<lambda>ev.
     then_do (then_do (subscript r_data ''round_num'') as_int) (\<lambda>rn.
     then_do (then_do (subscript r_data ''timestamp'') as_str) (\<lambda>ts.
     then_do (then_do (subscript r_data ''prompts_used'') as_str_dict) (\<lambda>pu.
     then_do (then_do (dict_get r_data ''variants_generated'' (JInt 0)) as_int) (\<lambda>vg.
     then_do (then_do (dict_get r_data ''cost_usd'' (JFloat 0)) as_float) (\<lambda>cu.
       Inr \<lparr>round_num = rn, timestamp = ts, prompts_used = pu, evaluation = ev,
            variants_generated = vg, cost_usd = cu\<rparr>)))))))"

definition state_of_json :: "json \<Rightarrow> error + WorkflowState" where
  "state_of_json data =
     then_do (then_do (then_do (dict_get data ''rounds'' (JList [])) as_list)
                (map_err round_of_dict)) (\<lambda>rs.
     then_do (then_do (subscript data ''pack_name'') as_str) (\<lambda>pn.
     then_do (then_do (subscript data ''started_at'') as_str) (\<lambda>sa.
     then_do (then_do (subscript data ''max_rounds'') as_int) (\<lambda>mr.
     then_do (then_do (dict_get data ''quality_threshold'' (JFloat (17 / 2))) as_float) (\<lambda>qt.
     then_do (then_do (dict_get data ''completed'' (JBool False)) as_bool) (\<lambda>co.
     then_do (then_do (dict_get data ''completion_reason'' (JStr [])) as_str) (\<lambda>cr.
       Inr \<lparr>pack_name = pn, started_at = sa, max_rounds = mr, quality_threshold = qt,
            rounds = rs, completed = co, completion_reason = cr\<rparr>)))))))"

text \<open>\<open>load\<close>: \<open>None\<close> when the state file does not exist.\<close>

definition load :: "state_file \<Rightarrow> error + WorkflowState option" where
  "load file =
     (case file of
        None \<Rightarrow> Inr None
      | Some data \<Rightarrow> then_do (state_of_json data) (\<lambda>s. Inr (Some s)))"

section \<open>The stopping-condition evaluator (agents/pm.py)\<close>

text \<open>
  \<open>check_stopping_conditions\<close> returns (should\_stop, decision, reason). It reads the
  decision off the reason text. In the last branch \<open>latest_score and \<dots>\<close> tests the score
  for truthiness first: \<open>None\<close> and \<open>0.0\<close> are both falsy; formatting \<open>None\<close> with
  \<open>.1f\<close> raises \<open>TypeError\<close>.
\<close>

definition check_stopping_conditions ::
    "float_text \<Rightarrow> WorkflowState \<Rightarrow> error + (bool \<times> string \<times> string)" where
  "check_stopping_conditions ft s =
     (let (should_cont, reason) = should_continue ft s in
      if \<not> should_cont then
        if str_in ''BLOCKED'' reason then Inr (True, ''BLOCKED'', reason)
        else if str_in ''PASS'' reason \<or> str_in ''threshold'' (lower reason) then
          Inr (True, ''PASS'', reason)
        else
          (case latest_score s of
             None \<Rightarrow> Inl TypeError
           | Some sc \<Rightarrow>
               if sc \<noteq> 0 \<and> sc \<ge> quality_threshold s then
                 Inr (True, ''PASS'',
                      ''Max rounds reached, but quality acceptable ('' @ fixed1 ft sc @ ''/10)'')
               else
                 Inr (True, ''CONTINUE'',
                      ''Max rounds reached with score '' @ fixed1 ft sc @ ''/10''))
      else Inr (False, ''CONTINUE'', reason))"

section \<open>The critic (agents/critic.py)\<close>

subsection \<open>Grouping the final images by screen type\<close>

text \<open>\<open>Path.stem\<close>: the name up to its last dot, when that dot is neither the first nor
  the last character.\<close>

fun rfind_char :: "char \<Rightarrow> string \<Rightarrow> int" where
  "rfind_char c [] = - 1"
| "rfind_char c (x # xs) =
     (let i = rfind_char c xs in if i \<noteq> - 1 then i + 1 else if x = c then 0 else - 1)"

definition stem :: "string \<Rightarrow> string" where
  "stem name =
     (let i = rfind_char CHR ''.'' name
      in if 0 < i \<and> i < int (length name) - 1 then take (nat i) name else name)"

text \<open>\<open>s.split(sep)\<close> for a one-character separator, and \<open>sep.join(parts)\<close>.\<close>

fun split_char :: "char \<Rightarrow> string \<Rightarrow> string list" where
  "split_char c [] = [[]]"
| "split_char c (x # xs) =
     (if x = c then [] # split_char c xs
      else (case split_char c xs of [] \<Rightarrow> [[x]] | p # ps \<Rightarrow> (x # p) # ps))"

fun join :: "string \<Rightarrow> string list \<Rightarrow> string" where
  "join sep [] = []"
| "join sep [p] = p"
| "join sep (p # q # ps) = p @ sep @ join sep (q # ps)"

definition screen_type_of :: "string \<Rightarrow> string" where
  "screen_type_of name =
     (let parts = split_char CHR ''_'' (stem name)
      in if length parts \<ge> 2 then join ''_'' (butlast parts) else stem name)"

text \<open>The dict \<open>images_to_evaluate\<close>: a new key goes to the end, a known key has the
  image appended to its list.\<close>

fun dict_append :: "(string \<times> 'a list) list \<Rightarrow> string \<Rightarrow> 'a \<Rightarrow> (string \<times> 'a list) list" where
  "dict_append [] k v = [(k, [v])]"
| "dict_append ((k', vs) # d) k v =
     (if k' = k then (k', vs @ [v]) # d else (k', vs) # dict_append d k v)"

definition group_images :: "image_file list \<Rightarrow> (string \<times> image_file list) list" where
  "group_images pngs =
     foldl (\<lambda>d f. dict_append d (screen_type_of (file_name f)) f) [] (sort_key file_name pngs)"

text \<open>\<open>{screen_type: paths[0].name for \<dots>}\<close>; \<open>paths[0]\<close> raises on an empty list.\<close>

definition first_variants :: "(string \<times> image_file list) list \<Rightarrow> error + str_dict" where
  "first_variants images =
     map_err (\<lambda>(screen_type, paths).
                case paths of [] \<Rightarrow> Inl IndexError | p # _ \<Rightarrow> Inr (screen_type, file_name p))
       images"

subsection \<open>The three ways to build an evaluation\<close>

definition create_mock_evaluation ::
    "float_text \<Rightarrow> string \<Rightarrow> (string \<times> image_file list) list \<Rightarrow> rat \<Rightarrow> string list
      \<Rightarrow> string list \<Rightarrow> error + PackEvaluation" where
  "create_mock_evaluation ft name images automated_score automated_issues critical =
     then_do (first_variants images) (\<lambda>selected.
       let ds =
         [\<lparr>dimension = ''brand_consistency'', score = 15 / 2, weight = 3 / 10,
           justification = ''[DRY RUN] Mock evaluation - brand consistency not assessed'',
           issues = []\<rparr>,
          \<lparr>dimension = ''technical_quality'',
           score = automated_score * (7 / 10) + 7 * (3 / 10), weight = 1 / 4,
           justification = ''[DRY RUN] Automated checks score: '' @ float_str ft automated_score
                             @ ''/10'',
           issues = automated_issues\<rparr>,
          \<lparr>dimension = ''etsy_compliance'', score = 9, weight = 1 / 5,
           justification = ''[DRY RUN] Mock evaluation - compliance not assessed'',
           issues = []\<rparr>,
          \<lparr>dimension = ''visual_appeal'', score = 7, weight = 1 / 4,
           justification = ''[DRY RUN] Mock evaluation - visual appeal not assessed'',
           issues = []\<rparr>]
       in Inr \<lparr>eval_pack_name = name, overall_score = calculate_overall_score ds,
               dimension_scores = ds, critical_issues = critical, selected_images = selected,
               deltas = [''[DRY RUN] This is a mock evaluation'',
                         ''[DRY RUN] Run without --dry-run for real AI evaluation''],
               automated_checks_passed = (length automated_issues = 0)\<rparr>)"

definition create_fallback_evaluation ::
    "string \<Rightarrow> (string \<times> image_file list) list \<Rightarrow> rat \<Rightarrow> string list \<Rightarrow> string list
      \<Rightarrow> error + PackEvaluation" where
  "create_fallback_evaluation name images automated_score automated_issues critical =
     then_do (first_variants images) (\<lambda>selected.
       let ds =
         [\<lparr>dimension = ''technical_quality'', score = automated_score, weight = 1,
           justification = ''Automated checks only (Vision model parse failed)'',
           issues = automated_issues\<rparr>]
       in Inr \<lparr>eval_pack_name = name, overall_score = automated_score,
               dimension_scores = ds, critical_issues = critical, selected_images = selected,
               deltas = [''ERROR: Failed to parse Critic response, only automated checks applied''],
               automated_checks_passed = (length automated_issues = 0)\<rparr>)"

text \<open>
  \<open>_build_evaluation_from_response\<close> reads the parsed response. As in \<open>load\<close>, a value
  of another JSON type than the record field is reported as \<open>TypeError\<close>.
\<close>

definition response_score :: "json \<Rightarrow> error + EvaluationScore" where
  "response_score dim_data =
     then_do (then_do (subscript dim_data ''dimension'') as_str) (\<lambda>d.
     then_do (then_do (subscript dim_data ''score'') as_float) (\<lambda>sc.
     then_do (then_do (subscript dim_data ''weight'') as_float) (\<lambda>w.
     then_do (then_do (subscript dim_data ''justification'') as_str) (\<lambda>ju.
     then_do (then_do (dict_get dim_data ''issues'' (JList [])) as_str_list) (\<lambda>iss.
       Inr \<lparr>dimension = d, score = sc, weight = w, justification = ju, issues = iss\<rparr>)))))"

definition build_evaluation_from_response ::
    "string \<Rightarrow> json \<Rightarrow> rat \<Rightarrow> string list \<Rightarrow> string list \<Rightarrow> error + PackEvaluation" where
  "build_evaluation_from_response name parsed automated_score automated_issues critical =
     then_do (then_do (then_do (dict_get parsed ''dimension_scores'' (JList [])) as_list)
                (map_err response_score)) (\<lambda>ds.
     then_do (then_do (dict_get parsed ''critical_issues'' (JList [])) as_str_list) (\<lambda>more.
     then_do (then_do (dict_get parsed ''overall_score'' (JFloat automated_score)) as_float) (\<lambda>os.
     then_do (then_do (dict_get parsed ''selected_images'' (JObj [])) as_str_dict) (\<lambda>si.
     then_do (then_do (dict_get parsed ''deltas'' (JList [])) as_str_list) (\<lambda>de.
       Inr \<lparr>eval_pack_name = name, overall_score = os, dimension_scores = ds,
            critical_issues = critical @ more, selected_images = si, deltas = de,
            automated_checks_passed = (length automated_issues = 0)\<rparr>)))))"

subsection \<open>parse\_critic\_response\<close>

text \<open>
  \<open>str.strip\<close> and \<open>json.loads\<close> belong to the Python library; they are parameters.
  \<open>json_loads\<close> gives \<open>None\<close> where the library raises \<open>JSONDecodeError\<close>.
\<close>

record py_lib =
  str_strip :: "string \<Rightarrow> string"
  json_loads :: "string \<Rightarrow> json option"

text \<open>\<open>hay.find(needle, start)\<close>: the first index from \<open>start\<close> on where \<open>needle\<close>
  occurs, or \<open>-1\<close>.\<close>

fun find_at :: "string \<Rightarrow> string \<Rightarrow> int \<Rightarrow> int" where
  "find_at needle [] pos = (if needle = [] then pos else - 1)"
| "find_at needle (c # cs) pos =
     (if prefix needle (c # cs) then pos else find_at needle cs (pos + 1))"

definition str_find :: "string \<Rightarrow> string \<Rightarrow> nat \<Rightarrow> int" where
  "str_find hay needle start =
     (if start > length hay then - 1 else find_at needle (drop start hay) (int start))"

definition slice :: "string \<Rightarrow> nat \<Rightarrow> nat \<Rightarrow> string" where
  "slice s start stop = take (stop - start) (drop start s)"

definition fence :: string where
  "fence = [CHR 0x60, CHR 0x60, CHR 0x60]"

definition parse_critic_response :: "py_lib \<Rightarrow> string \<Rightarrow> error + json" where
  "parse_critic_response lib response_text =
     (let text = str_strip lib response_text;
          text =
            (if str_in (fence @ ''json'') text then
               (let start = nat (str_find text (fence @ ''json'') 0 + 7);
                    stop = str_find text fence start
                in if stop \<noteq> - 1 then str_strip lib (slice text start (nat stop)) else text)
             else if str_in fence text then
               (let start = nat (str_find text fence 0 + 3);
                    stop = str_find text fence start
                in if stop \<noteq> - 1 then str_strip lib (slice text start (nat stop)) else text)
             else text)
      in case json_loads lib text of None \<Rightarrow> Inl ValueError | Some parsed \<Rightarrow> Inr parsed)"

subsection \<open>evaluate\_pack\<close>

text \<open>
  What the vision model call delivers is an input: an exception, or the \<open>content\<close> of
  the first choice, which may be \<open>None\<close> (slicing it for the debug log then raises
  inside the \<open>try\<close>, and the handler re-raises). The prompt and the encoded images only
  feed that call. \<open>api_key\<close> is the environment variable; an empty string is falsy.
\<close>

datatype api_outcome = ApiRaises string | ApiContent "string option"

definition evaluate_pack ::
    "float_text \<Rightarrow> py_lib \<Rightarrow> string option \<Rightarrow> bool \<Rightarrow> string \<Rightarrow> pack_dir \<Rightarrow> api_outcome
      \<Rightarrow> error + PackEvaluation" where
  "evaluate_pack ft lib api_key dry_run name pd api =
     (if (api_key = None \<or> api_key = Some []) \<and> \<not> dry_run then Inl ValueError
      else case final_pngs pd of
        None \<Rightarrow> Inl FileNotFoundError
      | Some pngs \<Rightarrow>
          let images_to_evaluate = group_images pngs in
          if images_to_evaluate = [] then Inl FileNotFoundError
          else
            let (automated_score, automated_issues) = compute_automated_score ft pd;
                critical = check_critical_issues ft pd
            in if dry_run then
                 create_mock_evaluation ft name images_to_evaluate automated_score
                   automated_issues critical
               else
                 (case api of
                    ApiRaises e \<Rightarrow> Inl (CollaboratorError e)
                  | ApiContent None \<Rightarrow> Inl TypeError
                  | ApiContent (Some response_text) \<Rightarrow>
                      (case parse_critic_response lib response_text of
                         Inl e \<Rightarrow>
                           create_fallback_evaluation name images_to_evaluate automated_score
                             automated_issues critical
                       | Inr parsed \<Rightarrow>
                           build_evaluation_from_response name parsed automated_score
                             automated_issues critical)))"

section \<open>The round executor and the workflow driver (multi\_agent/orchestrator.py)\<close>

definition determine_variant_count :: "int \<Rightarrow> int \<Rightarrow> int" where
  "determine_variant_count round_n max_r = (if round_n = 1 then 3 else if round_n = 2 then 2 else 1)"

text \<open>
  A round calls the collaborators (configuration, prompt engineer, art director, image
  generation, post-processing, critic, QA log) and the clock. What they deliver for a
  round, given the state the round starts from, is the input of the model: an exception
  that aborts the round, or the prompts of the reloaded configuration, the time stamp and
  the critic's evaluation.
\<close>

record round_outcome =
  config_prompts :: str_dict
  finished_at :: string
  critic_evaluation :: PackEvaluation

type_synonym collaborators = "int \<Rightarrow> WorkflowState \<Rightarrow> error + round_outcome"

text \<open>\<open>run_round\<close> consults the stopping conditions of the state it was given (for the
  round summary) and then assembles the \<open>RoundState\<close>.\<close>

definition run_round ::
    "float_text \<Rightarrow> collaborators \<Rightarrow> int \<Rightarrow> WorkflowState \<Rightarrow> error + RoundState" where
  "run_round ft collab round_n s =
     then_do (collab round_n s) (\<lambda>out.
     then_do (check_stopping_conditions ft s) (\<lambda>(should_stop, decision, reason).
       Inr \<lparr>round_num = round_n, timestamp = finished_at out,
            prompts_used = config_prompts out, evaluation = Some (critic_evaluation out),
            variants_generated = determine_variant_count round_n (max_rounds s),
            cost_usd = 0\<rparr>))"

text \<open>
  The main loop of \<open>run_multi_agent_workflow\<close>, as a function of the state and the
  state file; it returns the exception or the finalized state, and the state file as the
  loop leaves it.
\<close>

function run_loop ::
    "float_text \<Rightarrow> collaborators \<Rightarrow> WorkflowState \<Rightarrow> state_file
      \<Rightarrow> (error + WorkflowState) \<times> state_file" where
  "run_loop ft collab s file =
     (if \<not> fst (should_continue ft s) then
        (Inr (finalize s (snd (should_continue ft s))), file)
      else
        (case run_round ft collab (current_round s) s of
           Inl e \<Rightarrow> (Inl e, file)
         | Inr round_state \<Rightarrow>
             (case check_stopping_conditions ft (add_round s round_state) of
                Inl e \<Rightarrow> (Inl e, save (add_round s round_state))
              | Inr stop \<Rightarrow>
                  if fst stop then
                    (Inr (finalize (add_round s round_state)
                            (fst (snd stop) @ '': '' @ snd (snd stop))),
                     save (add_round s round_state))
                  else run_loop ft collab (add_round s round_state)
                         (save (add_round s round_state)))))"
  by pat_completeness auto
termination
proof (relation "measure (\<lambda>(ft, collab, s, file). nat (max_rounds s - int (length (rounds s))))")
  show "wf (measure (\<lambda>(ft, collab, s, file). nat (max_rounds s - int (length (rounds s)))))"
    by simp
next
  fix ft :: float_text and collab :: collaborators and s :: WorkflowState
    and fl :: state_file and r :: RoundState and stop :: "bool \<times> string \<times> string"
  assume rr: "run_round ft collab (current_round s) s = Inr r"
    and cs: "check_stopping_conditions ft (add_round s r) = Inr stop"
    and ns: "\<not> fst stop"
  from rr obtain ev where ev: "evaluation r = Some ev"
    by (auto simp: run_round_def then_do_def split: sum.splits prod.splits)
  have le: "latest_evaluation (add_round s r) = Some ev"
    using ev by (simp add: latest_evaluation_def add_round_def)
  from cs ns have "fst (should_continue ft (add_round s r))"
    by (auto simp: check_stopping_conditions_def Let_def split: prod.splits if_splits option.splits)
  with le have "\<not> current_round (add_round s r) > max_rounds (add_round s r)"
    by (auto simp: should_continue_def split: if_splits)
  then have "int (length (rounds s)) + 2 \<le> max_rounds s"
    by (simp add: current_round_def add_round_def)
  then show "((ft, collab, add_round s r, save (add_round s r)), (ft, collab, s, fl))
        \<in> measure (\<lambda>(ft, collab, s, file). nat (max_rounds s - int (length (rounds s))))"
    by (simp add: add_round_def)
qed

declare run_loop.simps [simp del]

text \<open>
  The driver: the two existence checks, load or create, the loop, the final save. The
  deliverable and upload stages that follow do not touch the workflow state.
\<close>

definition run_multi_agent_workflow ::
    "float_text \<Rightarrow> collaborators \<Rightarrow> bool \<Rightarrow> bool \<Rightarrow> state_file \<Rightarrow> string \<Rightarrow> int \<Rightarrow> rat
      \<Rightarrow> string \<Rightarrow> (error + WorkflowState) \<times> state_file" where
  "run_multi_agent_workflow ft collab pack_exists config_exists file name max_r threshold now =
     (if \<not> pack_exists then (Inl FileNotFoundError, file)
      else if \<not> config_exists then (Inl FileNotFoundError, file)
      else
        (case load file of
           Inl e \<Rightarrow> (Inl e, file)
         | Inr loaded \<Rightarrow>
             let workflow_state =
                   (case loaded of
                      Some s \<Rightarrow> s
                    | None \<Rightarrow> create_new name max_r threshold now)
             in (case run_loop ft collab workflow_state file of
                   (Inl e, file') \<Rightarrow> (Inl e, file')
                 | (Inr final, file') \<Rightarrow> (Inr final, save final))))"

section \<open>The states the driver reaches\<close>

text \<open>
  The driver obtains a state in four ways only: \<open>create_new\<close>; \<open>load\<close> of a file that
  \<open>save\<close> wrote for a state it held; \<open>add_round\<close> of the round that \<open>run_round\<close>
  returned for \<open>current_round\<close>, after \<open>should_continue\<close> allowed it; \<open>finalize\<close>.
\<close>

inductive reachable :: "float_text \<Rightarrow> WorkflowState \<Rightarrow> bool" for ft :: float_text where
  fresh: "reachable ft (create_new name max_r threshold now)"
| resumed: "reachable ft s \<Longrightarrow> load (save s) = Inr (Some s') \<Longrightarrow> reachable ft s'"
| round_added:
    "reachable ft s \<Longrightarrow> fst (should_continue ft s)
      \<Longrightarrow> run_round ft collab (current_round s) s = Inr r \<Longrightarrow> reachable ft (add_round s r)"
| finalized: "reachable ft s \<Longrightarrow> reachable ft (finalize s reason)"

definition contiguous_rounds :: "WorkflowState \<Rightarrow> bool" where
  "contiguous_rounds s = (\<forall>i<length (rounds s). round_num (rounds s ! i) = int i + 1)"

section \<open>Example data\<close>

definition example_evaluation :: "rat \<Rightarrow> string list \<Rightarrow> PackEvaluation" where
  "example_evaluation sc crit =
     \<lparr>eval_pack_name = ''demo'', overall_score = sc, dimension_scores = [],
      critical_issues = crit, selected_images = [], deltas = [],
      automated_checks_passed = True\<rparr>"

definition example_round :: "int \<Rightarrow> PackEvaluation \<Rightarrow> RoundState" where
  "example_round n ev =
     \<lparr>round_num = n, timestamp = ''2025-01-01T00:00:00+00:00'', prompts_used = [],
      evaluation = Some ev, variants_generated = determine_variant_count n 3, cost_usd = 0\<rparr>"

definition example_state :: "int \<Rightarrow> rat \<Rightarrow> RoundState list \<Rightarrow> WorkflowState" where
  "example_state max_r threshold rs =
     (create_new ''demo'' max_r threshold ''2025-01-01T00:00:00+00:00'')\<lparr>rounds := rs\<rparr>"

definition example_overlay :: "string \<Rightarrow> nat \<Rightarrow> nat \<Rightarrow> image_file" where
  "example_overlay name w h = \<lparr>file_name = name, image_size = Inr (w, h), st_size = 500000\<rparr>"

definition example_pack :: "image_file list \<Rightarrow> image_file list option \<Rightarrow> pack_dir" where
  "example_pack pngs jpgs =
     \<lparr>pack_path = ''packs/demo'', final_pngs = Some pngs, listing_jpgs = jpgs, zip_files = None\<rparr>"


definition example_lib :: py_lib where
  "example_lib = \<lparr>str_strip = id, json_loads = (\<lambda>t. if t = ''{}'' then Some (JObj []) else None)\<rparr>"

definition example_collaborators :: "rat list \<Rightarrow> collaborators" where
  "example_collaborators scores =
     (\<lambda>n s. if 1 \<le> n \<and> nat n \<le> length scores then
              Inr \<lparr>config_prompts = [], finished_at = ''2025-01-01T00:00:00+00:00'',
                   critic_evaluation = example_evaluation (scores ! (nat n - 1)) []\<rparr>
            else Inl (CollaboratorError ''no more rounds''))"

definition demo_rounds :: "RoundState list" where
  "demo_rounds =
     [\<lparr>round_num = 1, timestamp = ''2025-01-01T00:00:00+00:00'', prompts_used = [],
       evaluation = Some (example_evaluation 6 []), variants_generated = 3, cost_usd = 0\<rparr>,
      \<lparr>round_num = 2, timestamp = ''2025-01-01T00:00:00+00:00'', prompts_used = [],
       evaluation = Some (example_evaluation 9 []), variants_generated = 2, cost_usd = 0\<rparr>]"

definition demo_final :: WorkflowState where
  "demo_final =
     \<lparr>pack_name = ''demo'', started_at = ''2025-01-01T00:00:00+00:00'', max_rounds = 3,
      quality_threshold = 17 / 2, rounds = demo_rounds, completed = True,
      completion_reason = ''PASS: PASS - Score 9.0 '' @ ge_sign @ '' threshold 8.5''\<rparr>"

text \<open>A state file as no run of the driver writes it: marked completed after one round
  that scored 6.0, with three rounds allowed.\<close>

definition completed_after_one_round :: WorkflowState where
  "completed_after_one_round =
     \<lparr>pack_name = ''demo'', started_at = ''2025-01-01T00:00:00+00:00'', max_rounds = 3,
      quality_threshold = 17 / 2, rounds = [hd demo_rounds], completed = True,
      completion_reason = ''stopped by hand''\<rparr>"

section \<open>Facts about the message texts\<close>

lemma prefix_str_in: "prefix n h \<Longrightarrow> str_in n h"
  by (cases h) auto

lemma str_in_set: "str_in n h \<Longrightarrow> set n \<subseteq> set h"
proof (induction h)
  case Nil
  then show ?case by simp
next
  case (Cons c cs)
  from Cons.prems have "prefix n (c # cs) \<or> str_in n cs" by simp
  then show ?case
  proof
    assume "prefix n (c # cs)"
    then show ?thesis by (rule set_mono_prefix)
  next
    assume "str_in n cs"
    then have "set n \<subseteq> set cs" by (rule Cons.IH)
    then show ?thesis by auto
  qed
qed

lemma str_in_list_all: "str_in n h \<Longrightarrow> list_all P h \<Longrightarrow> list_all P n"
  using str_in_set[of n h] by (auto simp: list_all_iff)

lemma digit_char_range: "d < 10 \<Longrightarrow> digit_char d \<in> set ''0123456789''"
  unfolding digit_char_def by (rule nth_mem) simp

lemma digit_char_all: "list_all P ''0123456789'' \<Longrightarrow> d < 10 \<Longrightarrow> P (digit_char d)"
  using digit_char_range[of d] unfolding list_all_iff by blast

lemma str_nat_all: "list_all P ''0123456789'' \<Longrightarrow> list_all P (str_nat n)"
proof (induction n rule: str_nat.induct)
  case (1 n)
  show ?case
  proof (cases "n < 10")
    case True
    with digit_char_all[OF "1.prems"] show ?thesis by (subst str_nat.simps) simp
  next
    case False
    have "P (digit_char (n mod 10))" by (rule digit_char_all[OF "1.prems"]) simp
    with "1.IH"[OF False "1.prems"] False show ?thesis by (subst str_nat.simps) simp
  qed
qed

lemma str_int_all: 
  assumes "list_all P ''-0123456789''" shows "list_all P (str_int i)"
proof -
  from assms have m: "P CHR ''-''" and d: "list_all P ''0123456789''" by simp_all
  show ?thesis using m str_nat_all[OF d] by (simp add: str_int_def)
qed

text \<open>No capital B or P and no small t occurs in the max-rounds reason.\<close>

lemma plain_max_rounds: "list_all plain_char (''Max rounds ('' @ str_int n @ '') reached'')"
proof -
  have "list_all plain_char ''Max rounds (''" by (simp add: plain_char_def lower_char_def)
  moreover have "list_all plain_char '') reached''" by (simp add: plain_char_def lower_char_def)
  moreover have "list_all plain_char (str_int n)"
    by (rule str_int_all) (simp add: plain_char_def lower_char_def)
  ultimately show ?thesis by simp
qed

lemma max_rounds_reason_plain:
  "\<not> str_in ''BLOCKED'' (''Max rounds ('' @ str_int n @ '') reached'')"
  "\<not> str_in ''PASS'' (''Max rounds ('' @ str_int n @ '') reached'')"
  "\<not> str_in ''threshold'' (lower (''Max rounds ('' @ str_int n @ '') reached''))"
proof -
  let ?r = "''Max rounds ('' @ str_int n @ '') reached''"
  have p: "list_all plain_char ?r" by (rule plain_max_rounds)
  show "\<not> str_in ''BLOCKED'' ?r"
  proof
    assume "str_in ''BLOCKED'' ?r"
    from str_in_list_all[OF this p] show False by (simp add: plain_char_def)
  qed
  show "\<not> str_in ''PASS'' ?r"
  proof
    assume "str_in ''PASS'' ?r"
    from str_in_list_all[OF this p] show False by (simp add: plain_char_def)
  qed
  have "list_all (\<lambda>c. c \<noteq> CHR ''t'') (lower ?r)"
    using p unfolding lower_def list_all_iff plain_char_def by auto
  moreover have "\<not> list_all (\<lambda>c. c \<noteq> CHR ''t'') ''threshold''" by simp
  ultimately show "\<not> str_in ''threshold'' (lower ?r)"
    using str_in_list_all by blast
qed


section \<open>The stopping-condition evaluator\<close>

lemma should_continue_stop_has_evaluation:
  "\<not> fst (should_continue ft s) \<Longrightarrow> \<exists>ev. latest_evaluation s = Some ev"
  by (cases "latest_evaluation s") (simp_all add: should_continue_def)

lemma check_stopping_conditions_total:
  "\<exists>decision reason.
     check_stopping_conditions ft s = Inr (\<not> fst (should_continue ft s), decision, reason)"
proof (cases "fst (should_continue ft s)")
  case True
  then obtain reason where "should_continue ft s = (True, reason)"
    by (cases "should_continue ft s") simp
  then show ?thesis by (simp add: check_stopping_conditions_def)
next
  case False
  then obtain reason where sc: "should_continue ft s = (False, reason)"
    by (cases "should_continue ft s") simp
  from False obtain ev where "latest_evaluation s = Some ev"
    using should_continue_stop_has_evaluation by blast
  then have "latest_score s = Some (overall_score ev)" by (simp add: latest_score_def)
  with sc show ?thesis by (simp add: check_stopping_conditions_def)
qed

lemma should_stop_iff:
  "check_stopping_conditions ft s = Inr (stop, decision, reason)
    \<Longrightarrow> stop = (\<not> fst (should_continue ft s))"
  using check_stopping_conditions_total[of ft s] by auto

lemma max_rounds_outcome:
  assumes "latest_evaluation s = Some ev" and "critical_issues ev = []"
    and "\<not> passes_threshold ev" and "current_round s > max_rounds s"
  shows "check_stopping_conditions ft s =
           (if overall_score ev \<noteq> 0 \<and> overall_score ev \<ge> quality_threshold s then
              Inr (True, ''PASS'',
                   ''Max rounds reached, but quality acceptable ('' @ fixed1 ft (overall_score ev)
                     @ ''/10)'')
            else
              Inr (True, ''CONTINUE'',
                   ''Max rounds reached with score '' @ fixed1 ft (overall_score ev) @ ''/10''))"
proof -
  have sc: "should_continue ft s = (False, ''Max rounds ('' @ str_int (max_rounds s) @ '') reached'')"
    using assms by (simp add: should_continue_def)
  have ls: "latest_score s = Some (overall_score ev)"
    using assms(1) by (simp add: latest_score_def)
  show ?thesis
    unfolding check_stopping_conditions_def sc
    using max_rounds_reason_plain[of "max_rounds s"] ls by simp
qed

text \<open>With renderings of floats that contain no capital B, the evaluator passes a state
  that is neither blocked nor out of rounds exactly when the score reaches 8.5.\<close>

lemma pass_iff_fixed_bound:
  assumes "latest_evaluation s = Some ev" and "critical_issues ev = []"
    and "current_round s \<le> max_rounds s"
    and "\<And>x. CHR ''B'' \<notin> set (fixed1 ft x)" and "\<And>x. CHR ''B'' \<notin> set (float_str ft x)"
  shows "(\<exists>reason. check_stopping_conditions ft s = Inr (True, ''PASS'', reason))
          \<longleftrightarrow> overall_score ev \<ge> 17 / 2"
proof (cases "overall_score ev \<ge> 17 / 2")
  case True
  let ?reason = "''PASS - Score '' @ fixed1 ft (overall_score ev) @ '' '' @ ge_sign
                      @ '' threshold '' @ float_str ft (quality_threshold s)"
  have sc: "should_continue ft s = (False, ?reason)"
    using assms(1,2) True by (simp add: should_continue_def passes_threshold_def)
  have "list_all (\<lambda>c. c \<noteq> CHR ''B'') ?reason"
    using assms(4,5) by (auto simp: ge_sign_def list_all_iff)
  moreover have "\<not> list_all (\<lambda>c. c \<noteq> CHR ''B'') ''BLOCKED''" by simp
  ultimately have nb: "\<not> str_in ''BLOCKED'' ?reason"
    using str_in_list_all by blast
  have "prefix ''PASS'' ?reason" by simp
  then have "str_in ''PASS'' ?reason" by (rule prefix_str_in)
  with nb sc True show ?thesis by (simp add: check_stopping_conditions_def)
next
  case False
  then have "should_continue ft s =
      (True, ''Score '' @ fixed1 ft (overall_score ev) @ '' < threshold ''
                     @ float_str ft (quality_threshold s))"
    using assms(1,2,3) by (simp add: should_continue_def passes_threshold_def)
  with False show ?thesis by (simp add: check_stopping_conditions_def)
qed


text \<open>
  C1. The claim: with an evaluation without critical issues and \<open>current_round\<close> at most
  \<open>max_rounds\<close>, the evaluator stops with PASS exactly when the score reaches the state's
  \<open>quality_threshold\<close>. The code compares with the literal 8.5 of \<open>passes_threshold\<close>
  instead (\<open>pass_iff_fixed_bound\<close>). First state: \<open>quality_threshold\<close> 7.0, three rounds
  allowed, one round with score 7.5 and no critical issue; the score reaches the threshold,
  and the evaluator continues, with a reason that contradicts itself. Second state:
  \<open>quality_threshold\<close> 9.0 and score 8.7; the score is below the threshold, and the
  evaluator stops with PASS.
\<close>

theorem fixed_pass_bound_ignores_quality_threshold:
  "quality_threshold (example_state 3 7 [example_round 1 (example_evaluation (15 / 2) [])])
     \<le> overall_score (example_evaluation (15 / 2) [])
   \<and> check_stopping_conditions short_text
        (example_state 3 7 [example_round 1 (example_evaluation (15 / 2) [])])
      = Inr (False, ''CONTINUE'', ''Score 7.5 < threshold 7.0'')
   \<and> overall_score (example_evaluation (87 / 10) [])
       < quality_threshold (example_state 3 9 [example_round 1 (example_evaluation (87 / 10) [])])
   \<and> check_stopping_conditions short_text
        (example_state 3 9 [example_round 1 (example_evaluation (87 / 10) [])])
      = Inr (True, ''PASS'', ''PASS - Score 8.7 '' @ ge_sign @ '' threshold 9.0'')"
  by code_simp

text \<open>
  C2. For every state whose latest round carries an evaluation with a non-empty list of
  critical issues, the evaluator stops with decision BLOCKED, whatever the score.
\<close>

theorem blocked_regardless_of_score:
  assumes "latest_evaluation s = Some ev" and "critical_issues ev \<noteq> []"
  shows "check_stopping_conditions ft s =
           Inr (True, ''BLOCKED'',
                ''BLOCKED by '' @ str_nat (length (critical_issues ev)) @ '' critical issue(s)'')"
proof -
  let ?reason = "''BLOCKED by '' @ str_nat (length (critical_issues ev)) @ '' critical issue(s)''"
  have sc: "should_continue ft s = (False, ?reason)"
    using assms by (simp add: should_continue_def)
  have "prefix ''BLOCKED'' ?reason" by simp
  then have "str_in ''BLOCKED'' ?reason" by (rule prefix_str_in)
  with sc show ?thesis by (simp add: check_stopping_conditions_def)
qed

text \<open>The score 10.0 with one critical issue is BLOCKED.\<close>

theorem blocked_regardless_of_score_witness:
  "latest_evaluation
     (example_state 3 (17 / 2) [example_round 1 (example_evaluation 10 [''oversized archive''])])
     = Some (example_evaluation 10 [''oversized archive''])
   \<and> overall_score (example_evaluation 10 [''oversized archive'']) = 10
   \<and> critical_issues (example_evaluation 10 [''oversized archive'']) \<noteq> []
   \<and> check_stopping_conditions short_text
        (example_state 3 (17 / 2) [example_round 1 (example_evaluation 10 [''oversized archive''])])
      = Inr (True, ''BLOCKED'', ''BLOCKED by 1 critical issue(s)'')"
proof -
  let ?ev = "example_evaluation 10 [''oversized archive'']"
  let ?s = "example_state 3 (17 / 2) [example_round 1 ?ev]"
  have h1: "latest_evaluation ?s = Some ?ev" by code_simp
  have h2: "critical_issues ?ev \<noteq> []" by code_simp
  have h3: "overall_score ?ev = 10" by code_simp
  have h4: "str_nat (length (critical_issues ?ev)) = ''1''" by code_simp
  from blocked_regardless_of_score[OF h1 h2, of short_text] h1 h2 h3 h4 show ?thesis by simp
qed

text \<open>
  C3. The claim: past the last round, with an evaluation that neither blocks nor passes,
  the evaluator stops, labelled PASS when the score reaches \<open>quality_threshold\<close> and
  CONTINUE otherwise. The code stops (\<open>max_rounds_outcome\<close>), and labels with PASS only a
  score that is also non-zero: the test \<open>latest_score and \<dots>\<close> is false for 0.0. Here
  \<open>quality_threshold\<close> is 0.0, one round is allowed and has been run with score 0.0: the
  score reaches the threshold, and the label is CONTINUE.
\<close>

theorem zero_score_never_labelled_pass:
  "latest_evaluation (example_state 1 0 [example_round 1 (example_evaluation 0 [])])
     = Some (example_evaluation 0 [])
   \<and> \<not> passes_threshold (example_evaluation 0 [])
   \<and> max_rounds (example_state 1 0 [example_round 1 (example_evaluation 0 [])])
       < current_round (example_state 1 0 [example_round 1 (example_evaluation 0 [])])
   \<and> quality_threshold (example_state 1 0 [example_round 1 (example_evaluation 0 [])])
       \<le> overall_score (example_evaluation 0 [])
   \<and> check_stopping_conditions short_text
        (example_state 1 0 [example_round 1 (example_evaluation 0 [])])
      = Inr (True, ''CONTINUE'', ''Max rounds reached with score 0.0/10'')"
  by code_simp

section \<open>The score aggregator\<close>

lemma py_sum_sum_list: "py_sum xs = sum_list xs"
proof -
  have "foldl (+) a xs = a + sum_list xs" for a :: rat
    by (induction xs arbitrary: a) (simp_all add: add.assoc)
  then show ?thesis by (simp add: py_sum_def)
qed

text \<open>
  C4. For a non-empty list of dimension scores with non-zero total weight,
  \<open>calculate_overall_score\<close> returns the sum of score times weight divided by the sum of
  the weights; for the empty list and for a list of total weight 0 it returns 0.
\<close>

theorem calculate_overall_score_weighted_mean:
  "calculate_overall_score [] = 0
   \<and> (sum_list (map weight ds) = 0 \<longrightarrow> calculate_overall_score ds = 0)
   \<and> (ds \<noteq> [] \<and> sum_list (map weight ds) \<noteq> 0 \<longrightarrow>
        calculate_overall_score ds
          = sum_list (map (\<lambda>d. score d * weight d) ds) / sum_list (map weight ds))"
  by (simp add: calculate_overall_score_def py_sum_sum_list Let_def)

text \<open>Two dimensions whose weights sum to 0.5, not 1: (8 * 0.3 + 6 * 0.2) / 0.5 = 7.2.\<close>

theorem calculate_overall_score_weighted_mean_witness:
  "[\<lparr>dimension = ''brand_consistency'', score = 8, weight = 3 / 10, justification = [],
      issues = []\<rparr>,
    \<lparr>dimension = ''etsy_compliance'', score = 6, weight = 1 / 5, justification = [],
      issues = []\<rparr>] \<noteq> []
   \<and> sum_list (map weight
        [\<lparr>dimension = ''brand_consistency'', score = 8, weight = 3 / 10, justification = [],
           issues = []\<rparr>,
         \<lparr>dimension = ''etsy_compliance'', score = 6, weight = 1 / 5, justification = [],
           issues = []\<rparr>]) \<noteq> 0
   \<and> calculate_overall_score
        [\<lparr>dimension = ''brand_consistency'', score = 8, weight = 3 / 10, justification = [],
           issues = []\<rparr>,
         \<lparr>dimension = ''etsy_compliance'', score = 6, weight = 1 / 5, justification = [],
           issues = []\<rparr>] = 36 / 5"
  using calculate_overall_score_weighted_mean
    [of "[\<lparr>dimension = ''brand_consistency'', score = 8, weight = 3 / 10, justification = [],
            issues = []\<rparr>,
          \<lparr>dimension = ''etsy_compliance'', score = 6, weight = 1 / 5, justification = [],
            issues = []\<rparr>]"]
  by simp

section \<open>The automated technical checker\<close>

lemma compute_automated_score_eq:
  "compute_automated_score ft pd =
     (max 0 (10 - of_nat (length (fst (validate_technical_overlays pd))
                          + length (fst (validate_etsy_listings ft pd))
                          + length (fst (validate_etsy_downloads ft pd))) * (1 / 2)),
      fst (validate_technical_overlays pd) @ fst (validate_etsy_listings ft pd)
        @ fst (validate_etsy_downloads ft pd))"
  by (simp add: compute_automated_score_def Let_def)

text \<open>
  C5. For every pack directory, \<open>compute_automated_score\<close> returns the score
  max(0, 10 - 0.5 n), where n counts the issues of the overlay validation, the errors (not
  the warnings) of the listing-photo validation and the issues of the archive validation,
  together with exactly those issues; 3 issues give 8.5, 25 issues give 0.0, and the score
  is never negative.
\<close>

theorem automated_score_linear_penalty:
  fixes ft pd
  defines "n \<equiv> length (fst (validate_technical_overlays pd))
                + length (fst (validate_etsy_listings ft pd))
                + length (fst (validate_etsy_downloads ft pd))"
  shows "fst (compute_automated_score ft pd) = max 0 (10 - (1 / 2) * of_nat n)
       \<and> snd (compute_automated_score ft pd)
           = fst (validate_technical_overlays pd) @ fst (validate_etsy_listings ft pd)
               @ fst (validate_etsy_downloads ft pd)
       \<and> (n = 3 \<longrightarrow> fst (compute_automated_score ft pd) = 17 / 2)
       \<and> (n = 25 \<longrightarrow> fst (compute_automated_score ft pd) = 0)
       \<and> 0 \<le> fst (compute_automated_score ft pd)"
  unfolding n_def by (simp add: compute_automated_score_eq)

lemmas rubric_eval = validate_technical_overlays_def validate_etsy_listings_def
  validate_etsy_downloads_def overlay_issues_of_def example_pack_def example_overlay_def Let_def

text \<open>Three overlays of the wrong resolution out of four; twenty-five of them.\<close>

theorem automated_score_linear_penalty_witness:
  "fst (compute_automated_score short_text
     (example_pack [example_overlay ''starting_01.png'' 1280 720,
                    example_overlay ''brb_01.png'' 1920 1080,
                    example_overlay ''ending_01.png'' 1920 1081,
                    example_overlay ''ending_02.png'' 100 100] None)) = 17 / 2
   \<and> fst (compute_automated_score short_text
     (example_pack (replicate 25 (example_overlay ''starting_01.png'' 1280 720)) None)) = 0"
proof -
  let ?p3 = "example_pack [example_overlay ''starting_01.png'' 1280 720,
                    example_overlay ''brb_01.png'' 1920 1080,
                    example_overlay ''ending_01.png'' 1920 1081,
                    example_overlay ''ending_02.png'' 100 100] None"
  let ?p25 = "example_pack (replicate 25 (example_overlay ''starting_01.png'' 1280 720)) None"
  have n3: "length (fst (validate_technical_overlays ?p3))
              + length (fst (validate_etsy_listings short_text ?p3))
              + length (fst (validate_etsy_downloads short_text ?p3)) = 3"
    by (simp add: rubric_eval)
  have n25: "length (fst (validate_technical_overlays ?p25))
              + length (fst (validate_etsy_listings short_text ?p25))
              + length (fst (validate_etsy_downloads short_text ?p25)) = 25"
    by (simp add: rubric_eval length_concat sum_list_replicate)
  from automated_score_linear_penalty[of short_text ?p3] n3
       automated_score_linear_penalty[of short_text ?p25] n25
  show ?thesis by simp
qed


subsection \<open>Listing photos over the size limits\<close>








section \<open>Persistence: save, then load\<close>

lemma then_do_Inr [simp]: "then_do (Inr x) f = f x"
  by (simp add: then_do_def)

lemma then_do_Inl [simp]: "then_do (Inl e) f = Inl e"
  by (simp add: then_do_def)

lemma map_err_inverse:
  assumes "\<And>x. f (g x) = Inr x"
  shows "map_err f (map g xs) = Inr xs"
  by (induction xs) (simp_all add: assms)

lemma as_str_list_inverse: "as_str_list (json_str_list xs) = Inr xs"
  by (simp add: as_str_list_def json_str_list_def map_err_inverse)

lemma as_str_dict_inverse: "as_str_dict (json_str_dict d) = Inr d"
proof -
  have "map_err (\<lambda>(k, v). then_do (as_str v) (\<lambda>t. Inr (k, t))) (map (\<lambda>(k, v). (k, JStr v)) d) = Inr d"
    by (rule map_err_inverse) (simp add: case_prod_beta)
  then show ?thesis by (simp add: json_str_dict_def)
qed

lemma score_of_dict_inverse: "score_of_dict (score_to_dict sc) = Inr sc"
  by (simp add: score_of_dict_def score_to_dict_def subscript_def dict_get_def
        as_str_list_inverse)

lemma evaluation_of_dict_inverse: "evaluation_of_dict (evaluation_to_dict ev) = Inr ev"
  by (simp add: evaluation_of_dict_def evaluation_to_dict_def subscript_def
        as_str_list_inverse as_str_dict_inverse map_err_inverse score_of_dict_inverse)

lemma truthy_evaluation_to_dict: "truthy (evaluation_to_dict ev)"
  by (simp add: evaluation_to_dict_def)

lemma round_of_dict_inverse: "round_of_dict (to_dict r) = Inr r"
proof (cases "evaluation r")
  case None
  then show ?thesis
    by (simp add: round_of_dict_def to_dict_def subscript_def dict_get_def as_str_dict_inverse)
next
  case (Some ev)
  have t: "truthy (evaluation_to_dict ev)" by (rule truthy_evaluation_to_dict)
  from Some show ?thesis
    by (simp add: round_of_dict_def to_dict_def subscript_def dict_get_def as_str_dict_inverse
          t evaluation_of_dict_inverse)
qed

lemma state_of_json_inverse: "state_of_json (state_to_json s) = Inr s"
  by (simp add: state_of_json_def state_to_json_def subscript_def dict_get_def
        map_err_inverse round_of_dict_inverse)

text \<open>
  C8. For every workflow state, saving it to the state file and loading the file gives
  back the same state: every top-level field, the rounds in their order, and in each round
  the evaluation with its dimension scores. Consequently, loading a saved state and saving
  it again writes the same content.
\<close>

theorem save_load_roundtrip:
  "load (save s) = Inr (Some s)
   \<and> then_do (load (save s)) (\<lambda>loaded. Inr (map_option save loaded)) = Inr (Some (save s))"
  by (simp add: load_def save_def state_of_json_inverse)


text \<open>A state with one evaluated round, the tree that \<open>save\<close> writes for it, and the
  state read back.\<close>

theorem save_load_roundtrip_witness:
  "save (example_state 3 (17 / 2)
           [example_round 1
              ((example_evaluation 6 [])\<lparr>dimension_scores :=
                 [\<lparr>dimension = ''technical_quality'', score = 6, weight = 1,
                   justification = ''ok'', issues = [''soft edges'']\<rparr>]\<rparr>)])
     = Some (JObj
         [(''pack_name'', JStr ''demo''),
          (''started_at'', JStr ''2025-01-01T00:00:00+00:00''),
          (''max_rounds'', JInt 3),
          (''quality_threshold'', JFloat (17 / 2)),
          (''rounds'', JList
             [JObj
                [(''round_num'', JInt 1),
                 (''timestamp'', JStr ''2025-01-01T00:00:00+00:00''),
                 (''prompts_used'', JObj []),
                 (''evaluation'', JObj
                    [(''pack_name'', JStr ''demo''),
                     (''overall_score'', JFloat 6),
                     (''dimension_scores'', JList
                        [JObj
                           [(''dimension'', JStr ''technical_quality''),
                            (''score'', JFloat 6),
                            (''weight'', JFloat 1),
                            (''justification'', JStr ''ok''),
                            (''issues'', JList [JStr ''soft edges''])]]),
                     (''critical_issues'', JList []),
                     (''selected_images'', JObj []),
                     (''deltas'', JList []),
                     (''automated_checks_passed'', JBool True)]),
                 (''variants_generated'', JInt 3),
                 (''cost_usd'', JFloat 0)]]),
          (''completed'', JBool False),
          (''completion_reason'', JStr [])])
   \<and> load (save (example_state 3 (17 / 2)
           [example_round 1
              ((example_evaluation 6 [])\<lparr>dimension_scores :=
                 [\<lparr>dimension = ''technical_quality'', score = 6, weight = 1,
                   justification = ''ok'', issues = [''soft edges'']\<rparr>]\<rparr>)]))
     = Inr (Some (example_state 3 (17 / 2)
           [example_round 1
              ((example_evaluation 6 [])\<lparr>dimension_scores :=
                 [\<lparr>dimension = ''technical_quality'', score = 6, weight = 1,
                   justification = ''ok'', issues = [''soft edges'']\<rparr>]\<rparr>)]))"
proof -
  let ?s = "example_state 3 (17 / 2)
           [example_round 1
              ((example_evaluation 6 [])\<lparr>dimension_scores :=
                 [\<lparr>dimension = ''technical_quality'', score = 6, weight = 1,
                   justification = ''ok'', issues = [''soft edges'']\<rparr>]\<rparr>)]"
  have tree: "save ?s = Some (JObj
         [(''pack_name'', JStr ''demo''),
          (''started_at'', JStr ''2025-01-01T00:00:00+00:00''),
          (''max_rounds'', JInt 3),
          (''quality_threshold'', JFloat (17 / 2)),
          (''rounds'', JList
             [JObj
                [(''round_num'', JInt 1),
                 (''timestamp'', JStr ''2025-01-01T00:00:00+00:00''),
                 (''prompts_used'', JObj []),
                 (''evaluation'', JObj
                    [(''pack_name'', JStr ''demo''),
                     (''overall_score'', JFloat 6),
                     (''dimension_scores'', JList
                        [JObj
                           [(''dimension'', JStr ''technical_quality''),
                            (''score'', JFloat 6),
                            (''weight'', JFloat 1),
                            (''justification'', JStr ''ok''),
                            (''issues'', JList [JStr ''soft edges''])]]),
                     (''critical_issues'', JList []),
                     (''selected_images'', JObj []),
                     (''deltas'', JList []),
                     (''automated_checks_passed'', JBool True)]),
                 (''variants_generated'', JInt 3),
                 (''cost_usd'', JFloat 0)]]),
          (''completed'', JBool False),
          (''completion_reason'', JStr [])])"
    by (simp add: save_def state_to_json_def to_dict_def evaluation_to_dict_def
          score_to_dict_def json_str_list_def json_str_dict_def example_state_def
          example_round_def example_evaluation_def create_new_def determine_variant_count_def)
  from save_load_roundtrip[of ?s] have "load (save ?s) = Inr (Some ?s)" by simp
  with tree show ?thesis by (simp only:)
qed

section \<open>The critic: an unparseable response\<close>

lemma dict_append_not_empty: "dict_append d k v \<noteq> []"
  by (cases d) (auto split: if_splits)

lemma dict_append_groups:
  "list_all (\<lambda>p. snd p \<noteq> []) d \<Longrightarrow> list_all (\<lambda>p. snd p \<noteq> []) (dict_append d k v)"
  by (induction d) auto

lemma foldl_dict_append_groups:
  "list_all (\<lambda>p. snd p \<noteq> []) d
    \<Longrightarrow> list_all (\<lambda>p. snd p \<noteq> []) (foldl (\<lambda>d f. dict_append d (key f) f) d fs)"
  by (induction fs arbitrary: d) (simp_all add: dict_append_groups)

lemma foldl_dict_append_not_empty:
  "d \<noteq> [] \<or> fs \<noteq> [] \<Longrightarrow> foldl (\<lambda>d f. dict_append d (key f) f) d fs \<noteq> []"
proof (induction fs arbitrary: d)
  case Nil
  then show ?case by simp
next
  case (Cons f fs)
  have "dict_append d (key f) f \<noteq> []" by (rule dict_append_not_empty)
  then show ?case using Cons.IH[of "dict_append d (key f) f"] by simp
qed

lemma group_images_groups: "list_all (\<lambda>p. snd p \<noteq> []) (group_images pngs)"
  unfolding group_images_def
  by (rule foldl_dict_append_groups[where key = "\<lambda>f. screen_type_of (file_name f)"]) simp

lemma group_images_not_empty: "pngs \<noteq> [] \<Longrightarrow> group_images pngs \<noteq> []"
proof -
  assume "pngs \<noteq> []"
  then have "length (sort_key file_name pngs) \<noteq> 0" by simp
  then have "sort_key file_name pngs \<noteq> []" by (simp del: length_sort)
  then show ?thesis
    unfolding group_images_def
    using foldl_dict_append_not_empty[where key = "\<lambda>f. screen_type_of (file_name f)"]
    by blast
qed

lemma first_variants_groups:
  "list_all (\<lambda>p. snd p \<noteq> []) images
    \<Longrightarrow> first_variants images = Inr (map (\<lambda>(screen_type, paths). (screen_type, file_name (hd paths))) images)"
proof (induction images)
  case Nil
  then show ?case by (simp add: first_variants_def)
next
  case (Cons p images)
  obtain k ps where p: "p = (k, ps)" by (cases p)
  with Cons.prems obtain q qs where ps: "ps = q # qs" by (cases ps) auto
  from Cons have "first_variants images
       = Inr (map (\<lambda>(screen_type, paths). (screen_type, file_name (hd paths))) images)" by simp
  then show ?case using p ps by (simp add: first_variants_def)
qed

text \<open>paths[0] never raises in the critic: every screen type was entered with an image.\<close>

lemma first_variants_group_images:
  "first_variants (group_images pngs)
     = Inr (map (\<lambda>(screen_type, paths). (screen_type, file_name (hd paths))) (group_images pngs))"
  by (rule first_variants_groups) (rule group_images_groups)

text \<open>
  C9. When the critic's response text fails JSON parsing (the run is live, the API key is
  set, the final directory holds at least one image and the call returned a text),
  \<open>evaluate_pack\<close> does not raise: it returns the fallback evaluation, whose overall
  score is the automated score, whose only dimension is \<open>technical_quality\<close> at weight
  1.0 with the automated issues, and whose critical issues are those of
  \<open>check_critical_issues\<close>.
\<close>

theorem unparseable_response_gives_fallback:
  assumes key: "api_key = Some k" "k \<noteq> []" and live: "\<not> dry_run"
    and final: "final_pngs pd = Some pngs" "pngs \<noteq> []"
    and response: "api = ApiContent (Some response_text)"
    and unparseable: "parse_critic_response lib response_text = Inl e"
  shows "evaluate_pack ft lib api_key dry_run name pd api =
           Inr \<lparr>eval_pack_name = name,
                overall_score = fst (compute_automated_score ft pd),
                dimension_scores =
                  [\<lparr>dimension = ''technical_quality'',
                    score = fst (compute_automated_score ft pd),
                    weight = 1,
                    justification = ''Automated checks only (Vision model parse failed)'',
                    issues = snd (compute_automated_score ft pd)\<rparr>],
                critical_issues = check_critical_issues ft pd,
                selected_images =
                  map (\<lambda>(screen_type, paths). (screen_type, file_name (hd paths)))
                    (group_images pngs),
                deltas = [''ERROR: Failed to parse Critic response, only automated checks applied''],
                automated_checks_passed = (snd (compute_automated_score ft pd) = [])\<rparr>"
proof -
  have g: "group_images pngs \<noteq> []" using final(2) by (rule group_images_not_empty)
  obtain sc iss where c: "compute_automated_score ft pd = (sc, iss)"
    by (cases "compute_automated_score ft pd")
  have "evaluate_pack ft lib api_key dry_run name pd api =
          create_fallback_evaluation name (group_images pngs) sc iss (check_critical_issues ft pd)"
    using key live final(1) g response unparseable c
    by (simp add: evaluate_pack_def Let_def)
  then show ?thesis
    using c by (simp add: create_fallback_evaluation_def first_variants_group_images then_do_def)
qed


text \<open>A reply in prose, for a pack with one overlay of the wrong resolution.\<close>

theorem unparseable_response_gives_fallback_witness:
  "parse_critic_response example_lib ''Sorry, I cannot evaluate these images.'' = Inl ValueError
   \<and> evaluate_pack short_text example_lib (Some ''sk-test'') False ''demo''
       (example_pack [example_overlay ''starting_02.png'' 1280 720,
                      example_overlay ''starting_01.png'' 1920 1080] None)
       (ApiContent (Some ''Sorry, I cannot evaluate these images.''))
     = Inr \<lparr>eval_pack_name = ''demo'',
            overall_score = 19 / 2,
            dimension_scores =
              [\<lparr>dimension = ''technical_quality'', score = 19 / 2, weight = 1,
                justification = ''Automated checks only (Vision model parse failed)'',
                issues = [''Overlay wrong resolution: starting_02.png is 1280x720, expected 1920x1080'']\<rparr>],
            critical_issues =
              [''CRITICAL: Overlay wrong resolution: starting_02.png is 1280x720, expected 1920x1080''],
            selected_images = [(''starting'', ''starting_01.png'')],
            deltas = [''ERROR: Failed to parse Critic response, only automated checks applied''],
            automated_checks_passed = False\<rparr>"
proof -
  let ?pngs = "[example_overlay ''starting_02.png'' 1280 720,
                example_overlay ''starting_01.png'' 1920 1080]"
  let ?pd = "example_pack ?pngs None"
  let ?text = "''Sorry, I cannot evaluate these images.''"
  have h1: "Some ''sk-test'' = Some ''sk-test''" and h2: "''sk-test'' \<noteq> []" and h3: "\<not> False"
    by simp_all
  have h4: "final_pngs ?pd = Some ?pngs" by (simp add: example_pack_def)
  have h5: "?pngs \<noteq> []" by simp
  have h6: "ApiContent (Some ?text) = ApiContent (Some ?text)" by simp
  have h7: "parse_critic_response example_lib ?text = Inl ValueError"
    by (simp add: parse_critic_response_def example_lib_def fence_def Let_def)
  have score: "compute_automated_score short_text ?pd
      = (19 / 2, [''Overlay wrong resolution: starting_02.png is 1280x720, expected 1920x1080''])"
    by (simp add: rubric_eval listing_photo_pass_def compute_automated_score_def
          str_nat.simps digit_char_def)
  have critical: "check_critical_issues short_text ?pd
      = [''CRITICAL: Overlay wrong resolution: starting_02.png is 1280x720, expected 1920x1080'']"
    by (simp add: rubric_eval check_critical_issues_def str_nat.simps digit_char_def
          lower_def lower_char_def)
  have groups: "group_images ?pngs
      = [(''starting'', [example_overlay ''starting_01.png'' 1920 1080,
                         example_overlay ''starting_02.png'' 1280 720])]"
    by (simp add: group_images_def screen_type_of_def stem_def Let_def example_overlay_def)
  from unparseable_response_gives_fallback[OF h1 h2 h3 h4 h5 h6 h7, of short_text "''demo''"]
  show ?thesis
    unfolding score critical groups using h7 by (simp add: example_overlay_def)
qed


section \<open>The workflow driver\<close>

lemma finalize_keeps [simp]:
  "latest_evaluation (finalize s reason) = latest_evaluation s"
  "current_round (finalize s reason) = current_round s"
  "max_rounds (finalize s reason) = max_rounds s"
  "quality_threshold (finalize s reason) = quality_threshold s"
  by (simp_all add: finalize_def latest_evaluation_def current_round_def)

lemma should_continue_finalize [simp]:
  "should_continue ft (finalize s reason) = should_continue ft s"
  by (simp add: should_continue_def split: option.split)

lemma rounds_finalize [simp]: "rounds (finalize s reason) = rounds s"
  by (simp add: finalize_def)

lemma completed_finalize [simp]: "completed (finalize s reason) = True"
  by (simp add: finalize_def)

lemma rounds_add_round [simp]: "rounds (add_round s r) = rounds s @ [r]"
  by (simp add: add_round_def)

lemma add_round_take:
  "(add_round s r)\<lparr>rounds := rounds (add_round s r) @ take j new\<rparr>
     = s\<lparr>rounds := rounds s @ take (Suc j) (r # new)\<rparr>"
  by (simp add: add_round_def)

lemma check_stopping_conditions_cases:
  obtains decision reason where
    "check_stopping_conditions ft s = Inr (\<not> fst (should_continue ft s), decision, reason)"
  using check_stopping_conditions_total by blast

lemma run_round_number:
  "run_round ft collab n s = Inr r \<Longrightarrow> round_num r = n \<and> evaluation r \<noteq> None"
  by (auto simp: run_round_def then_do_def split: sum.splits prod.splits)

lemma run_loop_result:
  "run_loop ft collab s fl = (Inr t, fl')
    \<Longrightarrow> completed t \<and> \<not> fst (should_continue ft t)
        \<and> (\<exists>new. rounds t = rounds s @ new
              \<and> (\<forall>k<length new. fst (should_continue ft (s\<lparr>rounds := rounds s @ take k new\<rparr>))))"
proof (induction ft collab s fl rule: run_loop.induct)
  case (1 ft collab s fl)
  show ?case
  proof (cases "fst (should_continue ft s)")
    case False
    with "1.prems" have "t = finalize s (snd (should_continue ft s))"
      by (simp add: run_loop.simps)
    with False show ?thesis by simp
  next
    case True
    show ?thesis
    proof (cases "run_round ft collab (current_round s) s")
      case (Inl e)
      with True "1.prems" show ?thesis by (simp add: run_loop.simps)
    next
      case (Inr r)
      let ?s' = "add_round s r"
      obtain decision reason where
        cs: "check_stopping_conditions ft ?s' = Inr (\<not> fst (should_continue ft ?s'), decision, reason)"
        by (rule check_stopping_conditions_cases)
      show ?thesis
      proof (cases "fst (should_continue ft ?s')")
        case False
        with True Inr cs "1.prems" have t: "t = finalize ?s' (decision @ '': '' @ reason)"
          by (simp add: run_loop.simps)
        have "rounds t = rounds s @ [r]" using t by simp
        moreover have "\<forall>k<length [r]. fst (should_continue ft (s\<lparr>rounds := rounds s @ take k [r]\<rparr>))"
          using True by simp
        ultimately have "\<exists>new. rounds t = rounds s @ new
              \<and> (\<forall>k<length new. fst (should_continue ft (s\<lparr>rounds := rounds s @ take k new\<rparr>)))"
          by blast
        with t False show ?thesis by simp
      next
        case cont: True
        with True Inr cs "1.prems" have rec: "run_loop ft collab ?s' (save ?s') = (Inr t, fl')"
          by (simp add: run_loop.simps)
        have ih: "completed t \<and> \<not> fst (should_continue ft t)
            \<and> (\<exists>new. rounds t = rounds ?s' @ new
              \<and> (\<forall>k<length new. fst (should_continue ft (?s'\<lparr>rounds := rounds ?s' @ take k new\<rparr>))))"
          using "1.IH"[OF _ Inr cs _ rec] True cont by simp
        then obtain new where n: "rounds t = rounds ?s' @ new"
          and a: "\<forall>k<length new. fst (should_continue ft (?s'\<lparr>rounds := rounds ?s' @ take k new\<rparr>))"
          by blast
        have "rounds t = rounds s @ (r # new)" using n by simp
        moreover have "\<forall>k<length (r # new).
            fst (should_continue ft (s\<lparr>rounds := rounds s @ take k (r # new)\<rparr>))"
        proof (intro allI impI)
          fix k assume k: "k < length (r # new)"
          show "fst (should_continue ft (s\<lparr>rounds := rounds s @ take k (r # new)\<rparr>))"
          proof (cases k)
            case 0
            then show ?thesis using True by simp
          next
            case (Suc j)
            with k have "j < length new" by simp
            with a have "fst (should_continue ft (?s'\<lparr>rounds := rounds ?s' @ take j new\<rparr>))"
              by blast
            then show ?thesis unfolding add_round_take Suc .
          qed
        qed
        ultimately show ?thesis using ih by blast
      qed
    qed
  qed
qed


lemma load_save: "load (save s) = Inr (Some s)"
  by (simp add: load_def save_def state_of_json_inverse)

lemma run_loop_terminal:
  "\<not> fst (should_continue ft s)
    \<Longrightarrow> run_loop ft collab s fl = (Inr (finalize s (snd (should_continue ft s))), fl)"
  by (simp add: run_loop.simps)

lemma run_loop_stops_after_round:
  assumes "fst (should_continue ft s)" and "run_round ft collab (current_round s) s = Inr r"
    and "check_stopping_conditions ft (add_round s r) = Inr (True, decision, reason)"
  shows "run_loop ft collab s fl
           = (Inr (finalize (add_round s r) (decision @ '': '' @ reason)), save (add_round s r))"
  using assms by (simp add: run_loop.simps)

lemma driver_result:
  assumes "run_multi_agent_workflow ft collab True True fl name m q now = (Inr t, fl')"
  shows "fl' = save t \<and> completed t \<and> \<not> fst (should_continue ft t)"
proof -
  from assms obtain s0 f where "run_loop ft collab s0 fl = (Inr t, f)" and "fl' = save t"
    by (auto simp: run_multi_agent_workflow_def Let_def split: sum.splits prod.splits)
  with run_loop_result[of ft collab s0 fl t f] show ?thesis by simp
qed

lemma driver_resumed_terminal:
  assumes "\<not> fst (should_continue ft t)"
  shows "run_multi_agent_workflow ft collab True True (save t) name m q now
           = (Inr (finalize t (snd (should_continue ft t))),
              save (finalize t (snd (should_continue ft t))))"
  using assms by (simp add: run_multi_agent_workflow_def load_save run_loop_terminal)

text \<open>
  C6, as amended. In the driver's loop no round is appended once the evaluator reports a
  terminal outcome, and hence none once the driver has finalized the state, which it does
  only at such an outcome: on a state that is already terminal the loop finalizes with the
  rounds unchanged; after a round that makes the state terminal it finalizes with exactly
  that round appended; in every completed run each round was appended to a state on which
  the evaluator said continue, the final state is completed and terminal, and running the
  loop or the whole driver again on it (resumed from the file the driver saved) appends
  nothing. The flag \<open>completed\<close> itself is never read.
\<close>

theorem no_round_after_terminal:
  "(\<not> fst (should_continue ft s) \<longrightarrow>
      run_loop ft collab s fl = (Inr (finalize s (snd (should_continue ft s))), fl))
   \<and> (fst (should_continue ft s) \<and> run_round ft collab (current_round s) s = Inr r
        \<and> check_stopping_conditions ft (add_round s r) = Inr (True, decision, reason) \<longrightarrow>
      run_loop ft collab s fl
        = (Inr (finalize (add_round s r) (decision @ '': '' @ reason)), save (add_round s r)))
   \<and> (run_loop ft collab s fl = (Inr t, fl') \<longrightarrow>
        completed t \<and> \<not> fst (should_continue ft t)
        \<and> (\<exists>new. rounds t = rounds s @ new
              \<and> (\<forall>k<length new. fst (should_continue ft (s\<lparr>rounds := rounds s @ take k new\<rparr>))))
        \<and> (\<forall>collab' fl''. \<exists>t'. run_loop ft collab' t fl'' = (Inr t', fl'') \<and> rounds t' = rounds t))
   \<and> (run_multi_agent_workflow ft collab True True fl name m q now = (Inr t, fl') \<longrightarrow>
        completed t \<and> fl' = save t
        \<and> (\<forall>collab' name' m' q' now'. \<exists>t'.
              run_multi_agent_workflow ft collab' True True fl' name' m' q' now' = (Inr t', save t')
              \<and> rounds t' = rounds t))"
proof (intro conjI impI)
  assume "\<not> fst (should_continue ft s)"
  then show "run_loop ft collab s fl = (Inr (finalize s (snd (should_continue ft s))), fl)"
    by (rule run_loop_terminal)
next
  assume "fst (should_continue ft s) \<and> run_round ft collab (current_round s) s = Inr r
        \<and> check_stopping_conditions ft (add_round s r) = Inr (True, decision, reason)"
  then show "run_loop ft collab s fl
        = (Inr (finalize (add_round s r) (decision @ '': '' @ reason)), save (add_round s r))"
    using run_loop_stops_after_round by blast
next
  assume r: "run_loop ft collab s fl = (Inr t, fl')"
  from run_loop_result[OF r] show "completed t" by blast
  from run_loop_result[OF r] show "\<not> fst (should_continue ft t)" by blast
  from run_loop_result[OF r] show "\<exists>new. rounds t = rounds s @ new
              \<and> (\<forall>k<length new. fst (should_continue ft (s\<lparr>rounds := rounds s @ take k new\<rparr>)))"
    by blast
  from run_loop_result[OF r] have stopped: "\<not> fst (should_continue ft t)" by blast
  show "\<forall>collab' fl''. \<exists>t'. run_loop ft collab' t fl'' = (Inr t', fl'') \<and> rounds t' = rounds t"
    using run_loop_terminal[OF stopped] by simp
next
  assume d: "run_multi_agent_workflow ft collab True True fl name m q now = (Inr t, fl')"
  from driver_result[OF d] show "completed t" by blast
  from driver_result[OF d] show "fl' = save t" by blast
  from driver_result[OF d] have stopped: "\<not> fst (should_continue ft t)" and f: "fl' = save t"
    by blast+
  show "\<forall>collab' name' m' q' now'. \<exists>t'.
          run_multi_agent_workflow ft collab' True True fl' name' m' q' now' = (Inr t', save t')
          \<and> rounds t' = rounds t"
    unfolding f using driver_resumed_terminal[OF stopped] by simp
qed


lemma decimal1_examples:
  "decimal1 6 = ''6.0''" "decimal1 9 = ''9.0''" "decimal1 (17 / 2) = ''8.5''"
  "decimal1 5 = ''5.0''"
  by code_simp+

lemmas loop_eval = should_continue_def check_stopping_conditions_def latest_evaluation_def
  latest_score_def passes_threshold_def current_round_def run_round_def add_round_def
  finalize_def create_new_def example_collaborators_def example_evaluation_def
  determine_variant_count_def short_text_def decimal1_examples ge_sign_def

lemma demo_run:
  "run_loop short_text (example_collaborators [6, 9, 4])
     (create_new ''demo'' 3 (17 / 2) ''2025-01-01T00:00:00+00:00'') None
   = (Inr \<lparr>pack_name = ''demo'', started_at = ''2025-01-01T00:00:00+00:00'', max_rounds = 3,
           quality_threshold = 17 / 2, rounds = demo_rounds, completed = True,
           completion_reason = ''PASS: PASS - Score 9.0 '' @ ge_sign @ '' threshold 8.5''\<rparr>,
      save \<lparr>pack_name = ''demo'', started_at = ''2025-01-01T00:00:00+00:00'', max_rounds = 3,
           quality_threshold = 17 / 2, rounds = demo_rounds, completed = False,
           completion_reason = []\<rparr>)"
  by (simp add: run_loop.simps loop_eval demo_rounds_def)


lemma demo_workflow:
  "run_multi_agent_workflow short_text (example_collaborators [6, 9, 4]) True True None
     ''demo'' 3 (17 / 2) ''2025-01-01T00:00:00+00:00''
   = (Inr demo_final, save demo_final)"
  by (simp add: run_multi_agent_workflow_def load_def demo_run demo_final_def)

text \<open>
  The scenario of the pack "demo": at most 3 rounds, threshold 8.5, scores 6.0 and then
  9.0. The workflow stops after round 2 with two rounds; resumed later, it appends nothing.
\<close>

theorem no_round_after_terminal_witness:
  "run_multi_agent_workflow short_text (example_collaborators [6, 9, 4]) True True None
     ''demo'' 3 (17 / 2) ''2025-01-01T00:00:00+00:00''
     = (Inr demo_final, save demo_final)
   \<and> map round_num (rounds demo_final) = [1, 2]
   \<and> map (map_option overall_score \<circ> evaluation) (rounds demo_final) = [Some 6, Some 9]
   \<and> completed demo_final
   \<and> (\<exists>t'. run_multi_agent_workflow short_text (example_collaborators [5, 5, 5]) True True
               (save demo_final) ''demo'' 5 (17 / 2) ''2025-02-01T00:00:00+00:00''
             = (Inr t', save t')
           \<and> rounds t' = rounds demo_final)"
proof -
  have run: "run_multi_agent_workflow short_text (example_collaborators [6, 9, 4]) True True None
     ''demo'' 3 (17 / 2) ''2025-01-01T00:00:00+00:00'' = (Inr demo_final, save demo_final)"
    by (rule demo_workflow)
  have r: "map round_num (rounds demo_final) = [1, 2]"
    "map (map_option overall_score \<circ> evaluation) (rounds demo_final) = [Some 6, Some 9]"
    by (simp_all add: demo_final_def demo_rounds_def example_evaluation_def)
  from no_round_after_terminal
         [where ft = short_text and collab = "example_collaborators [6, 9, 4]" and fl = None
            and name = "''demo''" and m = 3 and q = "17 / 2"
            and now = "''2025-01-01T00:00:00+00:00''" and t = demo_final
            and fl' = "save demo_final"]
  have "completed demo_final
        \<and> (\<forall>collab' name' m' q' now'. \<exists>t'.
              run_multi_agent_workflow short_text collab' True True (save demo_final) name' m' q' now'
                = (Inr t', save t')
              \<and> rounds t' = rounds demo_final)"
    using run by simp
  with run r show ?thesis by blast
qed

text \<open>
  C6 as stated fails where it makes the flag \<open>completed\<close> a trigger: neither the loop nor
  \<open>add_round\<close> reads it. Resumed from a file that holds a completed state with one round
  scored 6.0, on which the evaluator says continue, the driver runs round 2 and appends it.
\<close>

theorem completed_state_gets_another_round:
  "completed completed_after_one_round
   \<and> length (rounds completed_after_one_round) = 1
   \<and> fst (should_continue short_text completed_after_one_round)
   \<and> run_multi_agent_workflow short_text (example_collaborators [6, 9, 4]) True True
       (save completed_after_one_round) ''demo'' 3 (17 / 2) ''2025-02-01T00:00:00+00:00''
     = (Inr demo_final, save demo_final)
   \<and> length (rounds demo_final) = 2"
proof -
  have run: "run_loop short_text (example_collaborators [6, 9, 4]) completed_after_one_round
               (save completed_after_one_round)
             = (Inr demo_final, save (add_round completed_after_one_round (demo_rounds ! 1)))"
    by (simp add: run_loop.simps loop_eval completed_after_one_round_def demo_rounds_def
          demo_final_def)
  have c: "fst (should_continue short_text completed_after_one_round)"
    by (simp add: loop_eval completed_after_one_round_def demo_rounds_def)
  have "run_multi_agent_workflow short_text (example_collaborators [6, 9, 4]) True True
       (save completed_after_one_round) ''demo'' 3 (17 / 2) ''2025-02-01T00:00:00+00:00''
     = (Inr demo_final, save demo_final)"
    by (simp add: run_multi_agent_workflow_def load_save run)
  with c show ?thesis
    by (simp add: completed_after_one_round_def demo_final_def demo_rounds_def)
qed

lemma reachable_contiguous: "reachable ft s \<Longrightarrow> contiguous_rounds s"
proof (induction rule: reachable.induct)
  case (fresh name max_r threshold now)
  show ?case by (simp add: contiguous_rounds_def create_new_def)
next
  case (resumed s s')
  from resumed.hyps(2) have "s' = s" by (simp add: load_save)
  with resumed.IH show ?case by simp
next
  case (round_added s collab r)
  from round_added.hyps(3) have n: "round_num r = current_round s"
    using run_round_number by blast
  show ?case
    unfolding contiguous_rounds_def
  proof (intro allI impI)
    fix i assume i: "i < length (rounds (add_round s r))"
    show "round_num (rounds (add_round s r) ! i) = int i + 1"
    proof (cases "i < length (rounds s)")
      case True
      with round_added.IH show ?thesis by (simp add: contiguous_rounds_def nth_append)
    next
      case False
      with i have "i = length (rounds s)" by simp
      with n show ?thesis by (simp add: nth_append current_round_def)
    qed
  qed
next
  case (finalized s reason)
  then show ?case by (simp add: contiguous_rounds_def)
qed

lemma run_loop_reachable:
  "run_loop ft collab s fl = (Inr t, fl') \<Longrightarrow> reachable ft s \<Longrightarrow> reachable ft t"
proof (induction ft collab s fl rule: run_loop.induct)
  case (1 ft collab s fl)
  show ?case
  proof (cases "fst (should_continue ft s)")
    case False
    with "1.prems" show ?thesis by (auto simp: run_loop.simps intro: reachable.finalized)
  next
    case True
    show ?thesis
    proof (cases "run_round ft collab (current_round s) s")
      case (Inl e)
      with True "1.prems" show ?thesis by (simp add: run_loop.simps)
    next
      case (Inr r)
      let ?s' = "add_round s r"
      have r': "reachable ft ?s'"
        using "1.prems"(2) True Inr by (rule reachable.round_added)
      obtain decision reason where
        cs: "check_stopping_conditions ft ?s' = Inr (\<not> fst (should_continue ft ?s'), decision, reason)"
        by (rule check_stopping_conditions_cases)
      show ?thesis
      proof (cases "fst (should_continue ft ?s')")
        case False
        with True Inr cs "1.prems" have "t = finalize ?s' (decision @ '': '' @ reason)"
          by (simp add: run_loop.simps)
        with r' show ?thesis by (simp add: reachable.finalized)
      next
        case cont: True
        with True Inr cs "1.prems" have rec: "run_loop ft collab ?s' (save ?s') = (Inr t, fl')"
          by (simp add: run_loop.simps)
        show ?thesis using "1.IH"[OF _ Inr cs _ rec r'] True cont by simp
      qed
    qed
  qed
qed

lemma driver_reachable:
  assumes "run_multi_agent_workflow ft collab pe ce fl name m q now = (Inr t, fl')"
    and "fl = None \<or> (\<exists>s0. reachable ft s0 \<and> fl = save s0)"
  shows "reachable ft t"
proof -
  from assms(2) obtain s0 where s0: "reachable ft s0"
      and l: "load fl = Inr (if fl = None then None else Some s0)"
      and c: "fl = None \<longrightarrow> s0 = create_new name m q now"
  proof
    assume "fl = None"
    then show ?thesis using that[of "create_new name m q now"]
      by (simp add: load_def reachable.fresh)
  next
    assume "\<exists>s0. reachable ft s0 \<and> fl = save s0"
    then obtain s0 where "reachable ft s0" "fl = save s0" by blast
    then show ?thesis using that[of s0] by (simp add: load_save) (simp add: save_def)
  qed
  from assms(1) l c obtain f where "run_loop ft collab s0 fl = (Inr t, f)"
    by (auto simp: run_multi_agent_workflow_def Let_def split: sum.splits prod.splits if_splits)
  then show ?thesis using s0 by (rule run_loop_reachable)
qed

text \<open>
  C7. For every workflow state the driver reaches (created fresh or loaded, then extended
  round by round), \<open>current_round\<close> is the number of rounds plus one, and the round at
  index i has \<open>round_num\<close> i + 1. The state a run of the driver returns is reached in
  this sense, when the run started without a state file or from the file saved for a
  reached state.
\<close>

theorem reachable_rounds_contiguous:
  "(reachable ft s \<longrightarrow>
      current_round s = int (length (rounds s)) + 1
      \<and> (\<forall>i<length (rounds s). round_num (rounds s ! i) = int i + 1))
   \<and> (run_multi_agent_workflow ft collab pack_exists config_exists fl name m q now = (Inr t, fl')
        \<and> (fl = None \<or> (\<exists>s0. reachable ft s0 \<and> fl = save s0)) \<longrightarrow> reachable ft t)"
  using reachable_contiguous[of ft s] driver_reachable[of ft collab pack_exists config_exists fl name m q now t fl']
  by (simp add: contiguous_rounds_def current_round_def)

theorem reachable_rounds_contiguous_witness:
  "reachable short_text demo_final
   \<and> current_round demo_final = 3
   \<and> map round_num (rounds demo_final) = [1, 2]"
proof -
  have "reachable short_text demo_final"
    using reachable_rounds_contiguous
            [where ft = short_text and collab = "example_collaborators [6, 9, 4]"
               and pack_exists = True and config_exists = True and fl = None
               and name = "''demo''" and m = 3 and q = "17 / 2"
               and now = "''2025-01-01T00:00:00+00:00''" and t = demo_final
               and fl' = "save demo_final"]
          demo_workflow
    by simp
  moreover from this reachable_rounds_contiguous[where ft = short_text and s = demo_final]
  have "current_round demo_final = int (length (rounds demo_final)) + 1" by blast
  moreover have "length (rounds demo_final) = 2"
    "map round_num (rounds demo_final) = [1, 2]"
    by (simp_all add: demo_final_def demo_rounds_def)
  ultimately show ?thesis by simp
qed

end
